(* ===== verification/Prelude.thy ===== *)
theory Prelude
  imports Main "HOL-Library.Word" "HOL-Library.Monad_Syntax"
begin

text \<open>
  Shared vocabulary of the development: the C++ types and library operations that
  \<^verbatim>\<open>src/oldsrc/main.cpp\<close> calls and that every component model uses.
  \<^item> \<open>size_t\<close> is a 64-bit unsigned word; \<open>npos\<close> is its largest value, so that
    \<open>npos + 1 = 0\<close> and \<open>0 - 1 = npos\<close> wrap as they do on the target.
  \<^item> \<^verbatim>\<open>std::string\<close> is a \<open>string\<close> (a list of bytes); its members \<open>size\<close>,
    \<open>operator[]\<close>, \<open>substr\<close>, \<open>find\<close> and \<open>find_last_of\<close> are \<open>str_size\<close>,
    \<open>str_at\<close>, \<open>str_substr\<close>, \<open>str_find\<close> and \<open>str_find_last_of\<close>. Where the
    library throws (\<^verbatim>\<open>std::out_of_range\<close>) or the behaviour is undefined (indexing
    past the terminating NUL), the model returns \<open>None\<close>.
  \<^item> \<^verbatim>\<open>std::getline\<close> over a whole stream is \<open>getlines\<close>; writing each line
    followed by a newline is \<open>unlines\<close>.
  \<^item> \<^verbatim>\<open>std::filesystem::path::operator/\<close> on POSIX is \<open>path_join\<close>.
\<close>

named_theorems cstr_simps "evaluation rules of the modelled std::string operations"

type_synonym size_t = "64 word"

definition npos :: size_t where
  "npos = - 1"

abbreviation nl :: char where
  "nl \<equiv> CHR 0x0A"

abbreviation dq :: char where
  "dq \<equiv> CHR 0x22"

abbreviation nul :: char where
  "nul \<equiv> CHR 0x00"

text \<open>A string whose length fits in \<open>size_t\<close>: every string a process can hold.\<close>

abbreviation fits :: "string \<Rightarrow> bool" where
  "fits s \<equiv> length s < 2 ^ 64"

definition str_size :: "string \<Rightarrow> size_t" where
  "str_size s = of_nat (length s)"

text \<open>\<^verbatim>\<open>s[i]\<close>: position \<open>size()\<close> holds the terminating NUL; beyond it is undefined.\<close>

definition str_at :: "string \<Rightarrow> size_t \<Rightarrow> char option" where
  "str_at s i =
     (if unat i < length s then Some (s ! unat i)
      else if unat i = length s then Some nul else None)"

text \<open>\<^verbatim>\<open>s.substr(pos, n)\<close>: throws when \<open>pos > size()\<close>, else clamps the count.\<close>

definition str_substr :: "string \<Rightarrow> size_t \<Rightarrow> size_t \<Rightarrow> string option" where
  "str_substr s pos n =
     (if length s < unat pos then None else Some (take (unat n) (drop (unat pos) s)))"

text \<open>\<^verbatim>\<open>s.find(p)\<close>: the first position where \<open>p\<close> occurs, or \<open>npos\<close>.\<close>

fun find_idx :: "string \<Rightarrow> string \<Rightarrow> nat option" where
  "find_idx p [] = (if p = [] then Some 0 else None)"
| "find_idx p (c # cs) =
     (if take (length p) (c # cs) = p then Some 0 else map_option Suc (find_idx p cs))"

definition str_find :: "string \<Rightarrow> string \<Rightarrow> size_t" where
  "str_find s p = (case find_idx p s of None \<Rightarrow> npos | Some i \<Rightarrow> of_nat i)"

text \<open>\<^verbatim>\<open>s.find_last_of(cs)\<close>: the last position holding one of \<open>cs\<close>, or \<open>npos\<close>.\<close>

fun rfind_any :: "char list \<Rightarrow> string \<Rightarrow> nat option" where
  "rfind_any cs [] = None"
| "rfind_any cs (c # s) =
     (case rfind_any cs s of
        Some i \<Rightarrow> Some (Suc i)
      | None \<Rightarrow> (if c \<in> set cs then Some 0 else None))"

definition str_find_last_of :: "string \<Rightarrow> char list \<Rightarrow> size_t" where
  "str_find_last_of s cs = (case rfind_any cs s of None \<Rightarrow> npos | Some i \<Rightarrow> of_nat i)"

text \<open>
  \<^verbatim>\<open>while (std::getline(in, line))\<close>: characters are read into the current line
  until a newline (consumed, not stored); at end of input a non-empty current line is
  the last line, an empty one ends the loop.
\<close>

fun getlines_acc :: "string \<Rightarrow> string \<Rightarrow> string list" where
  "getlines_acc cur [] = (if cur = [] then [] else [rev cur])"
| "getlines_acc cur (c # cs) =
     (if c = nl then rev cur # getlines_acc [] cs else getlines_acc (c # cur) cs)"

definition getlines :: "string \<Rightarrow> string list" where
  "getlines s = getlines_acc [] s"

definition unlines :: "string list \<Rightarrow> string" where
  "unlines ls = concat (map (\<lambda>l. l @ [nl]) ls)"

text \<open>\<^verbatim>\<open>std::vector::size()\<close> of a vector whose elements the model keeps in a list.\<close>

definition vec_size :: "'a list \<Rightarrow> size_t" where
  "vec_size xs = of_nat (length xs)"

text \<open>
  \<^verbatim>\<open>path(a) / b\<close> for a relative \<open>b\<close> on POSIX: a separator is inserted when
  \<open>a\<close> has a file name, i.e. is non-empty and does not end in a slash.
\<close>

definition path_join :: "string \<Rightarrow> string \<Rightarrow> string" where
  "path_join a b =
     (if b \<noteq> [] \<and> hd b = CHR ''/'' then b
      else if a \<noteq> [] \<and> last a \<noteq> CHR ''/'' then a @ ''/'' @ b
      else a @ b)"

text \<open>
  The observable actions of the program, in the order it performs them: output on
  \<^verbatim>\<open>std::cout\<close> and \<^verbatim>\<open>std::cerr\<close>, directories created, files written and
  removed, and shell commands run by \<^verbatim>\<open>system()\<close>. The components agree on this
  type, and a run of \<^verbatim>\<open>main\<close> is the list of its effects with its exit status.
\<close>

datatype effect =
    Out string
  | Err string
  | MkDirs string
  | WriteFile string string
  | Remove string
  | Shell string

text \<open>How the process ends: \<^verbatim>\<open>return n\<close> or \<^verbatim>\<open>exit(n)\<close>, or termination by an uncaught exception.\<close>

datatype exit_status = ExitCode int | Terminated string

declare str_size_def [cstr_simps] str_at_def [cstr_simps] str_substr_def [cstr_simps]
  str_find_def [cstr_simps] str_find_last_of_def [cstr_simps] npos_def [cstr_simps]
  getlines_def [cstr_simps] unlines_def [cstr_simps] path_join_def [cstr_simps]
  vec_size_def [cstr_simps]

section \<open>Words of size_t\<close>

lemma unat_of_nat_fits [simp]:
  "n < 2 ^ 64 \<Longrightarrow> unat (of_nat n :: size_t) = n"
  by (simp add: unat_of_nat)

lemma unat_npos [simp]: "unat npos = 2 ^ 64 - 1"
  by (simp add: npos_def unsigned_minus_1_eq_mask mask_eq_exp_minus_1)

lemma npos_plus_one [simp]: "npos + 1 = 0"
  by (simp add: npos_def)

lemma of_nat_neq_npos:
  "n < 2 ^ 64 - 1 \<Longrightarrow> (of_nat n :: size_t) \<noteq> npos"
proof
  assume "n < 2 ^ 64 - 1" "(of_nat n :: size_t) = npos"
  then have "unat (of_nat n :: size_t) = unat npos" by simp
  with \<open>n < 2 ^ 64 - 1\<close> show False by simp
qed

lemma unat_str_size [simp]: "fits s \<Longrightarrow> unat (str_size s) = length s"
  by (simp add: str_size_def)

section \<open>find and find_last_of\<close>

lemma find_idx_Some:
  "find_idx p s = Some i \<Longrightarrow> i + length p \<le> length s \<and> take (length p) (drop i s) = p"
proof (induction p s arbitrary: i rule: find_idx.induct)
  case (1 p)
  then show ?case by (simp split: if_splits)
next
  case (2 p c cs)
  show ?case
  proof (cases "take (length p) (c # cs) = p")
    case True
    with "2.prems" have "i = 0" by simp
    have "min (length p) (length (c # cs)) = length p"
      using arg_cong [OF True, of length] by simp
    then have "length p \<le> length (c # cs)" by (simp add: min_def split: if_splits)
    with True \<open>i = 0\<close> show ?thesis by simp
  next
    case False
    with "2.prems" obtain j where "find_idx p cs = Some j" "i = Suc j" by auto
    with "2.IH" False show ?thesis by simp
  qed
qed

lemma find_idx_first:
  "find_idx p s = Some i \<Longrightarrow> j < i \<Longrightarrow> take (length p) (drop j s) \<noteq> p"
proof (induction p s arbitrary: i j rule: find_idx.induct)
  case (1 p)
  then show ?case by (simp split: if_splits)
next
  case (2 p c cs)
  show ?case
  proof (cases "take (length p) (c # cs) = p")
    case True
    with "2.prems" show ?thesis by simp
  next
    case False
    with "2.prems"(1) obtain i' where i': "find_idx p cs = Some i'" "i = Suc i'" by auto
    show ?thesis
    proof (cases j)
      case 0
      with False show ?thesis by simp
    next
      case (Suc j')
      with i' "2.prems"(2) have "j' < i'" by simp
      with "2.IH" [OF False i'(1)] Suc show ?thesis by simp
    qed
  qed
qed

lemma find_idx_None:
  "find_idx p s = None \<longleftrightarrow> (\<forall>xs ys. s \<noteq> xs @ p @ ys)"
proof (induction p s rule: find_idx.induct)
  case (1 p)
  then show ?case by simp
next
  case (2 p c cs)
  have head: "take (length p) (c # cs) = p \<longleftrightarrow> (\<exists>ys. c # cs = p @ ys)"
    by (metis append_eq_conv_conj)
  have tail: "(\<exists>xs ys. c # cs = xs @ p @ ys) \<longleftrightarrow>
      (\<exists>ys. c # cs = p @ ys) \<or> (\<exists>xs ys. cs = xs @ p @ ys)"
  proof
    assume "\<exists>xs ys. c # cs = xs @ p @ ys"
    then obtain xs ys where "c # cs = xs @ p @ ys" by blast
    then show "(\<exists>ys. c # cs = p @ ys) \<or> (\<exists>xs ys. cs = xs @ p @ ys)"
      by (cases xs) auto
  next
    assume "(\<exists>ys. c # cs = p @ ys) \<or> (\<exists>xs ys. cs = xs @ p @ ys)"
    then show "\<exists>xs ys. c # cs = xs @ p @ ys"
      by (metis append_Cons append_Nil)
  qed
  show ?case
  proof (cases "take (length p) (c # cs) = p")
    case True
    then show ?thesis using head tail by auto
  next
    case False
    then show ?thesis using "2.IH" [OF False] head tail by auto
  qed
qed

lemma rfind_any_Some:
  "rfind_any cs s = Some i \<Longrightarrow>
     i < length s \<and> s ! i \<in> set cs \<and> (\<forall>j. i < j \<and> j < length s \<longrightarrow> s ! j \<notin> set cs)"
proof (induction cs s arbitrary: i rule: rfind_any.induct)
  case (1 cs)
  then show ?case by simp
next
  case (2 cs c s)
  show ?case
  proof (cases "rfind_any cs s")
    case None
    have none: "\<forall>j < length s. s ! j \<notin> set cs"
      using None by (induction s) (auto simp: nth_Cons split: option.splits if_splits nat.splits)
    from None "2.prems" have "c \<in> set cs" and "i = 0"
      by (auto split: if_splits)
    with none show ?thesis by auto
  next
    case (Some k)
    with "2.prems" "2.IH" show ?thesis
      by (auto simp: nth_Cons split: nat.splits)
  qed
qed

lemma rfind_any_None:
  "rfind_any cs s = None \<longleftrightarrow> set s \<inter> set cs = {}"
  by (induction cs s rule: rfind_any.induct) (auto split: option.splits)

section \<open>Lists\<close>

lemma dropWhile_eq_iff:
  "dropWhile P l = r \<longleftrightarrow> (\<exists>ws. l = ws @ r \<and> list_all P ws \<and> (r = [] \<or> \<not> P (hd r)))"
proof (induction l)
  case Nil
  then show ?case by auto
next
  case (Cons x xs)
  show ?case
  proof (cases "P x")
    case True
    have "(\<exists>ws. x # xs = ws @ r \<and> list_all P ws \<and> (r = [] \<or> \<not> P (hd r))) \<longleftrightarrow>
          (\<exists>ws. xs = ws @ r \<and> list_all P ws \<and> (r = [] \<or> \<not> P (hd r)))"
    proof
      assume "\<exists>ws. x # xs = ws @ r \<and> list_all P ws \<and> (r = [] \<or> \<not> P (hd r))"
      then obtain ws where ws: "x # xs = ws @ r" "list_all P ws" "r = [] \<or> \<not> P (hd r)" by blast
      with True show "\<exists>ws. xs = ws @ r \<and> list_all P ws \<and> (r = [] \<or> \<not> P (hd r))"
        by (cases ws) auto
    next
      assume "\<exists>ws. xs = ws @ r \<and> list_all P ws \<and> (r = [] \<or> \<not> P (hd r))"
      then obtain ws where "xs = ws @ r" "list_all P ws" "r = [] \<or> \<not> P (hd r)" by blast
      with True show "\<exists>ws. x # xs = ws @ r \<and> list_all P ws \<and> (r = [] \<or> \<not> P (hd r))"
        by (intro exI [of _ "x # ws"]) simp
    qed
    with True Cons.IH show ?thesis by simp
  next
    case False
    have "(\<exists>ws. x # xs = ws @ r \<and> list_all P ws \<and> (r = [] \<or> \<not> P (hd r))) \<longleftrightarrow> r = x # xs"
    proof
      assume "\<exists>ws. x # xs = ws @ r \<and> list_all P ws \<and> (r = [] \<or> \<not> P (hd r))"
      then obtain ws where ws: "x # xs = ws @ r" "list_all P ws" by blast
      with False show "r = x # xs" by (cases ws) auto
    qed (use False in auto)
    with False show ?thesis by auto
  qed
qed

section \<open>Indexing, substrings and searching\<close>

lemma str_at_zero: "str_at s 0 = Some (if s = [] then nul else hd s)"
  by (cases s) (simp_all add: str_at_def)

lemma str_at_last:
  assumes "s \<noteq> []"
  shows "\<exists>c. str_at s (str_size s - 1) = Some c"
proof (cases "fits s")
  case True
  then have u: "unat (str_size s) = length s" by simp
  with assms have "str_size s \<noteq> 0" by auto
  then have "unat (str_size s - 1) = length s - 1" using u by (simp add: unat_minus_one)
  with assms show ?thesis by (simp add: str_at_def)
next
  case False
  have "unat (str_size s - 1) < 2 ^ 64"
    using unsigned_less [of "str_size s - 1"] by simp
  with False show ?thesis by (simp add: str_at_def)
qed

lemma str_at_last_fits:
  "s \<noteq> [] \<Longrightarrow> fits s \<Longrightarrow> str_at s (str_size s - 1) = Some (last s)"
proof -
  assume ne: "s \<noteq> []" and f: "fits s"
  then have u: "unat (str_size s) = length s" by simp
  with ne have "str_size s \<noteq> 0" by auto
  then have "unat (str_size s - 1) = length s - 1" using u by (simp add: unat_minus_one)
  with ne show ?thesis by (simp add: str_at_def last_conv_nth)
qed

lemma unat_str_size_minus:
  "fits s \<Longrightarrow> k \<le> length s \<Longrightarrow> unat (str_size s - of_nat k) = length s - k"
proof -
  assume f: "fits s" and k: "k \<le> length s"
  then have "unat (of_nat k :: size_t) \<le> unat (str_size s)" by simp
  then have "(of_nat k :: size_t) \<le> str_size s" by (simp add: word_le_nat_alt)
  then show ?thesis using f k by (simp add: unat_sub)
qed

lemma str_substr_Some:
  "unat pos \<le> length s \<Longrightarrow> str_substr s pos n = Some (take (unat n) (drop (unat pos) s))"
  by (simp add: str_substr_def)

lemma rfind_any_append:
  "rfind_any cs (s @ t) =
     (case rfind_any cs t of Some i \<Rightarrow> Some (length s + i) | None \<Rightarrow> rfind_any cs s)"
  by (induction s) (auto split: option.splits)

lemma str_find_found:
  assumes "find_idx p s = Some i" "p \<noteq> []" "fits s"
  shows "str_find s p = of_nat i" "str_find s p \<noteq> npos"
proof -
  from assms(1) have "i + length p \<le> length s" by (rule find_idx_Some [THEN conjunct1])
  with assms(2,3) have "i < 2 ^ 64 - 1" by (cases p) auto
  then show "str_find s p \<noteq> npos" using assms(1) by (simp add: str_find_def of_nat_neq_npos)
  show "str_find s p = of_nat i" using assms(1) by (simp add: str_find_def)
qed

lemma str_find_absent: "find_idx p s = None \<Longrightarrow> str_find s p = npos"
  by (simp add: str_find_def)

section \<open>getline and its inverse\<close>

lemma getlines_acc_no_nl:
  "nl \<notin> set cur \<Longrightarrow> l \<in> set (getlines_acc cur s) \<Longrightarrow> nl \<notin> set l"
  by (induction cur s rule: getlines_acc.induct) (auto split: if_splits)

lemma getlines_no_nl: "l \<in> set (getlines s) \<Longrightarrow> nl \<notin> set l"
  using getlines_acc_no_nl [of "[]"] by (simp add: getlines_def)

lemma unlines_Nil [simp]: "unlines [] = []"
  by (simp add: unlines_def)

lemma unlines_Cons [simp]: "unlines (l # ls) = l @ nl # unlines ls"
  by (simp add: unlines_def)

lemma unlines_append [simp]: "unlines (ls @ ms) = unlines ls @ unlines ms"
  by (simp add: unlines_def)

lemma unlines_getlines_acc:
  "nl \<notin> set cur \<Longrightarrow>
   unlines (getlines_acc cur s) =
     (if rev cur @ s = [] \<or> last (rev cur @ s) = nl then rev cur @ s else rev cur @ s @ [nl])"
proof (induction cur s rule: getlines_acc.induct)
  case (1 cur)
  then show ?case by (cases cur) auto
next
  case (2 cur c cs)
  then show ?case by auto
qed

lemma getlines_acc_line:
  "nl \<notin> set l \<Longrightarrow> getlines_acc cur (l @ nl # rest) = (rev cur @ l) # getlines_acc [] rest"
  by (induction l arbitrary: cur) auto

lemma getlines_unlines:
  "(\<forall>l \<in> set ls. nl \<notin> set l) \<Longrightarrow> getlines (unlines ls) = ls"
  by (induction ls) (auto simp: getlines_def getlines_acc_line)

lemma length_getlines_unlines:
  "(\<forall>l \<in> set ls. nl \<notin> set l) \<Longrightarrow> length (getlines (unlines ls)) = length ls"
  by (simp add: getlines_unlines)

end
