(* ===== verification/Directives.thy ===== *)
theory Directives
  imports Prelude
begin

text \<open>
  The DirectiveExtractor, \<^verbatim>\<open>prePreprocess\<close> in \<^verbatim>\<open>src/oldsrc/main.cpp\<close>
  (lines 14--67): every line of the input matching \<^verbatim>\<open>#pub <payload>\<close> or
  \<^verbatim>\<open>#import <path>\<close> is recorded in the global vector \<^verbatim>\<open>preprocStored\<close> and
  replaced by a marker declaration named after its position in that vector; every other
  line is copied. This theory holds the two regular expressions (as the function
  \<open>rx_directive\<close> and its declarative characterisation), the \<^verbatim>\<open>#import\<close> path
  rewrite \<open>import_path\<close>, the marker text, the per-line step \<open>pre_line\<close> and the loop
  \<open>pre_lines\<close>, with their lemmas.
\<close>

section \<open>The directive regular expressions\<close>

text \<open>
  \<^verbatim>\<open>std::regex\<close> (ECMAScript grammar) with the classic locale: \<^verbatim>\<open>\s\<close> is
  space, tab, newline, vertical tab, form feed and carriage return; \<^verbatim>\<open>.\<close> is any
  character but the line terminators newline and carriage return; \<^verbatim>\<open>^\<close> and
  \<^verbatim>\<open>$\<close> anchor at the ends of the line.
\<close>

definition is_space :: "char \<Rightarrow> bool" where
  "is_space c \<longleftrightarrow> c \<in> set [CHR '' '', CHR 0x09, CHR 0x0A, CHR 0x0B, CHR 0x0C, CHR 0x0D]"

definition is_line_term :: "char \<Rightarrow> bool" where
  "is_line_term c \<longleftrightarrow> c = CHR 0x0A \<or> c = CHR 0x0D"

text \<open>
  \<^verbatim>\<open>regex_search(line, m, ^\s*KW\s+(.*?)$)\<close> and the capture \<^verbatim>\<open>m[1]\<close>:
  leading blanks, the keyword, at least one blank (taken greedily), then the rest of the
  line, which the lazy group must consume up to the end without a line terminator.
\<close>

definition rx_directive :: "string \<Rightarrow> string \<Rightarrow> string option" where
  "rx_directive kw line =
     (let r = dropWhile is_space line in
      if take (length kw) r \<noteq> kw then None
      else
        (let w = drop (length kw) r; p = dropWhile is_space w in
         if p = w \<or> list_ex is_line_term p then None else Some p))"

abbreviation pubPreproc :: "string \<Rightarrow> string option" where
  "pubPreproc \<equiv> rx_directive ''#pub''"

abbreviation importPreproc :: "string \<Rightarrow> string option" where
  "importPreproc \<equiv> rx_directive ''#import''"

section \<open>The import path rewrite\<close>

text \<open>
  \<^verbatim>\<open>importedFile[0] == a && importedFile[importedFile.size() - 1] == b\<close>: the
  second index is evaluated only when the first comparison holds (short circuit).
\<close>

definition encl :: "string \<Rightarrow> char \<Rightarrow> char \<Rightarrow> bool option" where
  "encl f a b =
     do {
       c \<leftarrow> str_at f 0;
       if c = a then do { d \<leftarrow> str_at f (str_size f - 1); Some (d = b) } else Some False
     }"

text \<open>Lines 40--42: a path mentioning \<^verbatim>\<open>.yapp\<close> loses its last extension and gets \<^verbatim>\<open>.yapp.h\<close>.\<close>

definition rename_yapp :: "string \<Rightarrow> string option" where
  "rename_yapp f =
     (if str_find f ''.yapp'' \<noteq> npos
      then map_option (\<lambda>s. s @ ''.yapp.h'') (str_substr f 0 (str_find_last_of f ''.''))
      else Some f)"

definition import_path :: "string \<Rightarrow> string option" where
  "import_path importedFile =
     do {
       angledQuotes \<leftarrow> encl importedFile (CHR ''<'') (CHR ''>'');
       doubleQuotes \<leftarrow> encl importedFile dq dq;
       f1 \<leftarrow> (if angledQuotes \<or> doubleQuotes
              then str_substr importedFile 1 (str_size importedFile - 2)
              else Some importedFile);
       f2 \<leftarrow> rename_yapp f1;
       Some (if angledQuotes then ''<'' @ f2 @ ''>''
             else if doubleQuotes then dq # f2 @ [dq]
             else dq # f2 @ ''.yapp.h'' @ [dq])
     }"

section \<open>Marker declarations\<close>

text \<open>
  \<^verbatim>\<open>out << preprocStored.size() - 1\<close> prints a \<open>size_t\<close> in decimal.
\<close>

definition digit_char :: "nat \<Rightarrow> char" where
  "digit_char d = ''0123456789'' ! d"

fun show_dec :: "nat \<Rightarrow> string" where
  "show_dec n =
     (if n < 10 then [digit_char n] else show_dec (n div 10) @ [digit_char (n mod 10)])"

declare show_dec.simps [simp del]

definition marker_prefix :: string where
  "marker_prefix =
     ''pub __attribute__((annotate('' @ dq # ''__pub_preproc__'' @ dq # ''))) void __pub_preproc__''"

text \<open>The declaration written in place of the directive with ordinal \<open>k\<close> (lines 29, 52).\<close>

definition marker_text :: "size_t \<Rightarrow> string" where
  "marker_text k = marker_prefix @ show_dec (unat k) @ ''();''"

section \<open>The extractor state and its step\<close>

text \<open>
  The global \<^verbatim>\<open>std::vector<std::string> preprocStored\<close> (line 12) and the
  \<^verbatim>\<open>std::ostringstream out\<close> of \<^verbatim>\<open>prePreprocess\<close>.
\<close>

record pp_state =
  preprocStored :: "string list"
  pp_out :: string

text \<open>Lines 28--29 and 51--52: store the directive, then write its marker line.\<close>

definition push_directive :: "pp_state \<Rightarrow> string \<Rightarrow> pp_state" where
  "push_directive st d =
     (let st' = st\<lparr>preprocStored := preprocStored st @ [d]\<rparr>
      in st'\<lparr>pp_out := pp_out st' @ marker_text (vec_size (preprocStored st') - 1) @ [nl]\<rparr>)"

text \<open>One iteration of the loop of lines 25--56.\<close>

definition pre_line :: "pp_state \<Rightarrow> string \<Rightarrow> pp_state option" where
  "pre_line st line =
     (case pubPreproc line of
        Some p \<Rightarrow> Some (push_directive st p)
      | None \<Rightarrow>
          (case importPreproc line of
             Some importedFile \<Rightarrow>
               map_option (\<lambda>f. push_directive st (''include '' @ f)) (import_path importedFile)
           | None \<Rightarrow> Some (st\<lparr>pp_out := pp_out st @ line @ [nl]\<rparr>)))"

fun pre_lines :: "pp_state \<Rightarrow> string list \<Rightarrow> pp_state option" where
  "pre_lines st [] = Some st"
| "pre_lines st (l # ls) = (case pre_line st l of None \<Rightarrow> None | Some st' \<Rightarrow> pre_lines st' ls)"

text \<open>
  The text transformation of \<^verbatim>\<open>prePreprocess\<close>: the file's contents are read
  line by line into a fresh stream; the vector keeps what earlier calls stored.
\<close>

definition pre_preprocess_text :: "string list \<Rightarrow> string \<Rightarrow> pp_state option" where
  "pre_preprocess_text stored src =
     pre_lines \<lparr>preprocStored = stored, pp_out = []\<rparr> (getlines src)"

section \<open>The extractor's contract\<close>

text \<open>
  What \<S>4.1 of the specification asks of the extractor, written line by line: the text a
  directive line stores (\<open>None\<close> for a line that is not a directive), the table of
  stored texts, and the output lines, where the \<open>k\<close>-th directive becomes the marker
  with ordinal \<open>k\<close> and every other line is kept.
\<close>

definition directive_text :: "string \<Rightarrow> string option" where
  "directive_text l =
     (case pubPreproc l of
        Some p \<Rightarrow> Some p
      | None \<Rightarrow> (case importPreproc l of
                  Some f \<Rightarrow> map_option (\<lambda>r. ''include '' @ r) (import_path f)
                | None \<Rightarrow> None))"

fun directive_table :: "string list \<Rightarrow> string list" where
  "directive_table [] = []"
| "directive_table (l # ls) =
     (case directive_text l of Some d \<Rightarrow> d # directive_table ls | None \<Rightarrow> directive_table ls)"

fun spec_lines :: "nat \<Rightarrow> string list \<Rightarrow> string list" where
  "spec_lines k [] = []"
| "spec_lines k (l # ls) =
     (case directive_text l of
        Some _ \<Rightarrow> marker_text (of_nat k) # spec_lines (Suc k) ls
      | None \<Rightarrow> l # spec_lines k ls)"

text \<open>
  Reading a marker back: the ordinal a marker declaration encodes in its name, as the
  partitioner recovers it (\<S>4.3: ``a marker's encoded ordinal'').
\<close>

definition is_digit :: "char \<Rightarrow> bool" where
  "is_digit c \<longleftrightarrow> (48::nat) \<le> of_char c \<and> (of_char c :: nat) < 58"

definition read_dec :: "string \<Rightarrow> nat" where
  "read_dec ds = foldl (\<lambda>a c. 10 * a + (of_char c - 48)) 0 ds"

definition parse_marker :: "string \<Rightarrow> nat option" where
  "parse_marker l =
     (let n = length marker_prefix; d = drop n l; m = length d in
      if take n l = marker_prefix \<and> 3 < m \<and> drop (m - 3) d = ''();''
         \<and> list_all is_digit (take (m - 3) d)
      then Some (read_dec (take (m - 3) d)) else None)"

text \<open>The marker ordinals of a sequence of lines, in order.\<close>

fun marker_ords :: "string list \<Rightarrow> nat list" where
  "marker_ords [] = []"
| "marker_ords (l # ls) =
     (case parse_marker l of Some n \<Rightarrow> n # marker_ords ls | None \<Rightarrow> marker_ords ls)"

section \<open>The regular expressions, declaratively\<close>

lemma rx_directive_iff:
  assumes kw: "kw \<noteq> []" "\<not> is_space (hd kw)"
  shows "rx_directive kw l = Some p \<longleftrightarrow>
    (\<exists>ws ws'. l = ws @ kw @ ws' @ p \<and> list_all is_space ws \<and> ws' \<noteq> [] \<and>
       list_all is_space ws' \<and> (p = [] \<or> \<not> is_space (hd p)) \<and> \<not> list_ex is_line_term p)"
    (is "?L \<longleftrightarrow> ?R")
proof
  assume L: ?L
  define r where "r = dropWhile is_space l"
  define w where "w = drop (length kw) r"
  from L have tk: "take (length kw) r = kw" and pw: "rx_directive kw l = Some (dropWhile is_space w)"
    by (auto simp: rx_directive_def r_def w_def Let_def split: if_splits)
  from L pw have p: "p = dropWhile is_space w" by simp
  from L have ne: "p \<noteq> w" and nt: "\<not> list_ex is_line_term p"
    by (auto simp: rx_directive_def r_def w_def p Let_def split: if_splits)
  obtain ws where ws: "l = ws @ r" "list_all is_space ws"
    using dropWhile_eq_iff [of is_space l r] r_def by blast
  obtain ws' where ws': "w = ws' @ p" "list_all is_space ws'" "p = [] \<or> \<not> is_space (hd p)"
    using dropWhile_eq_iff [of is_space w p] p by blast
  have "r = kw @ w" using tk w_def by (metis append_take_drop_id)
  with ws ws' have "l = ws @ kw @ ws' @ p" by simp
  moreover from ws' ne have "ws' \<noteq> []" by auto
  ultimately show ?R using ws(2) ws'(2,3) nt by blast
next
  assume ?R
  then obtain ws ws' where l: "l = ws @ kw @ ws' @ p" and sp: "list_all is_space ws"
    and ne: "ws' \<noteq> []" and sp': "list_all is_space ws'"
    and hp: "p = [] \<or> \<not> is_space (hd p)" and nt: "\<not> list_ex is_line_term p"
    by blast
  have r: "dropWhile is_space l = kw @ ws' @ p"
    using l sp kw by (subst dropWhile_eq_iff) auto
  have w: "dropWhile is_space (ws' @ p) = p"
    using sp' hp by (subst dropWhile_eq_iff) auto
  from ne have "p \<noteq> ws' @ p" by simp
  with r w nt show ?L by (simp add: rx_directive_def Let_def)
qed

section \<open>The import path rewrite: no fault, and its branches\<close>

lemma encl_Some:
  "a \<noteq> nul \<Longrightarrow> \<exists>v. encl f a b = Some v \<and> (v \<longrightarrow> f \<noteq> [])"
proof -
  assume a: "a \<noteq> nul"
  show ?thesis
  proof (cases "f \<noteq> [] \<and> hd f = a")
    case True
    then obtain d where "str_at f (str_size f - 1) = Some d" using str_at_last by blast
    with True show ?thesis by (simp add: encl_def str_at_zero)
  next
    case False
    with a show ?thesis by (auto simp: encl_def str_at_zero)
  qed
qed

lemma encl_fits:
  "fits f \<Longrightarrow> a \<noteq> nul \<Longrightarrow> encl f a b = Some (f \<noteq> [] \<and> hd f = a \<and> last f = b)"
  by (cases "f \<noteq> [] \<and> hd f = a") (auto simp: encl_def str_at_zero str_at_last_fits)

lemma rename_yapp_Some: "\<exists>r. rename_yapp f = Some r"
  by (simp add: rename_yapp_def str_substr_def)

lemma rename_yapp_found:
  "fits (stem @ ''.yapp'') \<Longrightarrow> rename_yapp (stem @ ''.yapp'') = Some (stem @ ''.yapp.h'')"
proof -
  assume f: "fits (stem @ ''.yapp'')"
  have "find_idx ''.yapp'' (stem @ ''.yapp'') \<noteq> None"
    by (subst find_idx_None) (metis append_Nil2)
  then obtain i where "find_idx ''.yapp'' (stem @ ''.yapp'') = Some i" by blast
  with f have found: "str_find (stem @ ''.yapp'') ''.yapp'' \<noteq> npos"
    by (intro str_find_found(2)) auto
  have "rfind_any ''.'' (stem @ ''.yapp'') = Some (length stem)"
    by (simp add: rfind_any_append)
  then have "str_find_last_of (stem @ ''.yapp'') ''.'' = of_nat (length stem)"
    by (simp add: str_find_last_of_def)
  with f found show ?thesis by (simp add: rename_yapp_def str_substr_def)
qed

lemma rename_yapp_absent:
  "find_idx ''.yapp'' f = None \<Longrightarrow> rename_yapp f = Some f"
  by (simp add: rename_yapp_def str_find_absent)

lemma str_substr_inner:
  "fits (a # s @ [b]) \<Longrightarrow> str_substr (a # s @ [b]) 1 (str_size (a # s @ [b]) - 2) = Some s"
proof -
  assume f: "fits (a # s @ [b])"
  have "unat (str_size (a # s @ [b]) - of_nat 2) = length s"
    using unat_str_size_minus [OF f, of 2] by simp
  then show ?thesis by (simp add: str_substr_def)
qed

section \<open>The import path rewrite: totality and branches\<close>

lemma import_path_total: "\<exists>r. import_path f = Some r"
proof -
  obtain a where a: "encl f (CHR ''<'') (CHR ''>'') = Some a" "a \<longrightarrow> f \<noteq> []"
    using encl_Some [of "CHR ''<''" f "CHR ''>''"] by auto
  obtain b where b: "encl f dq dq = Some b" "b \<longrightarrow> f \<noteq> []"
    using encl_Some [of dq f dq] by auto
  obtain f1 where f1: "(if a \<or> b then str_substr f 1 (str_size f - 2) else Some f) = Some f1"
  proof (cases "a \<or> b")
    case True
    with a b have "f \<noteq> []" by auto
    then show ?thesis
      using that [of "take (unat (str_size f - 2)) (drop (unat (1 :: size_t)) f)"] True
      by (cases f) (simp_all add: str_substr_def)
  next
    case False
    with that show ?thesis by simp
  qed
  obtain f2 where f2: "rename_yapp f1 = Some f2" using rename_yapp_Some by blast
  show ?thesis by (simp add: import_path_def a(1) b(1) f1 f2)
qed

lemma import_angle_yapp:
  "fits (''<'' @ stem @ ''.yapp>'') \<Longrightarrow>
   import_path (''<'' @ stem @ ''.yapp>'') = Some (''<'' @ stem @ ''.yapp.h>'')"
proof -
  assume f: "fits (''<'' @ stem @ ''.yapp>'')"
  have inner: "str_substr (''<'' @ stem @ ''.yapp>'') 1 (str_size (''<'' @ stem @ ''.yapp>'') - 2)
      = Some (stem @ ''.yapp'')"
    using str_substr_inner [of "CHR ''<''" "stem @ ''.yapp''" "CHR ''>''"] f by simp
  have r: "rename_yapp (stem @ ''.yapp'') = Some (stem @ ''.yapp.h'')"
    using f by (intro rename_yapp_found) simp
  from f have "encl (''<'' @ stem @ ''.yapp>'') (CHR ''<'') (CHR ''>'') = Some True"
    and "encl (''<'' @ stem @ ''.yapp>'') dq dq = Some False"
    by (simp_all add: encl_fits)
  with inner r show ?thesis by (simp add: import_path_def)
qed

lemma import_quoted_yapp:
  "fits (dq # stem @ ''.yapp'' @ [dq]) \<Longrightarrow>
   import_path (dq # stem @ ''.yapp'' @ [dq]) = Some (dq # stem @ ''.yapp.h'' @ [dq])"
proof -
  assume f: "fits (dq # stem @ ''.yapp'' @ [dq])"
  have inner: "str_substr (dq # stem @ ''.yapp'' @ [dq]) 1 (str_size (dq # stem @ ''.yapp'' @ [dq]) - 2)
      = Some (stem @ ''.yapp'')"
    using str_substr_inner [of dq "stem @ ''.yapp''" dq] f by simp
  have r: "rename_yapp (stem @ ''.yapp'') = Some (stem @ ''.yapp.h'')"
    using f by (intro rename_yapp_found) simp
  from f have "encl (dq # stem @ ''.yapp'' @ [dq]) (CHR ''<'') (CHR ''>'') = Some False"
    and "encl (dq # stem @ ''.yapp'' @ [dq]) dq dq = Some True"
    by (simp_all add: encl_fits)
  with inner r show ?thesis by (simp add: import_path_def)
qed

lemma import_bare_yapp:
  "fits (stem @ ''.yapp'') \<Longrightarrow>
   import_path (stem @ ''.yapp'') = Some (dq # stem @ ''.yapp.h.yapp.h'' @ [dq])"
proof -
  assume f: "fits (stem @ ''.yapp'')"
  have r: "rename_yapp (stem @ ''.yapp'') = Some (stem @ ''.yapp.h'')"
    using f by (rule rename_yapp_found)
  from f have "encl (stem @ ''.yapp'') (CHR ''<'') (CHR ''>'') = Some False"
    and "encl (stem @ ''.yapp'') dq dq = Some False"
    by (simp_all add: encl_fits)
  with r show ?thesis by (simp add: import_path_def)
qed

lemma import_angle_plain:
  "fits (CHR ''<'' # s @ ''>'') \<Longrightarrow> find_idx ''.yapp'' s = None \<Longrightarrow>
   import_path (CHR ''<'' # s @ ''>'') = Some (CHR ''<'' # s @ ''>'')"
proof -
  assume f: "fits (CHR ''<'' # s @ ''>'')" and n: "find_idx ''.yapp'' s = None"
  have inner: "str_substr (CHR ''<'' # s @ ''>'') 1 (str_size (CHR ''<'' # s @ ''>'') - 2) = Some s"
    using str_substr_inner [of "CHR ''<''" s "CHR ''>''"] f by simp
  from f have "encl (CHR ''<'' # s @ ''>'') (CHR ''<'') (CHR ''>'') = Some True"
    and "encl (CHR ''<'' # s @ ''>'') dq dq = Some False"
    by (simp_all add: encl_fits)
  with inner n show ?thesis by (simp add: import_path_def rename_yapp_absent)
qed

section \<open>Decimal ordinals and markers\<close>

lemma of_char_digit_char:
  "d < 10 \<Longrightarrow> (of_char (digit_char d) :: nat) = 48 + d"
  by (auto simp: digit_char_def less_Suc_eq numeral_eq_Suc)

lemma read_dec_snoc: "read_dec (ds @ [c]) = 10 * read_dec ds + (of_char c - 48)"
  by (simp add: read_dec_def)

lemma read_show_dec: "read_dec (show_dec n) = n"
proof (induction n rule: show_dec.induct)
  case (1 n)
  show ?case
  proof (cases "n < 10")
    case True
    then show ?thesis by (simp add: show_dec.simps [of n] read_dec_def of_char_digit_char)
  next
    case False
    then have "read_dec (show_dec n) = 10 * (n div 10) + n mod 10"
      using "1.IH" by (simp add: show_dec.simps [of n] read_dec_snoc of_char_digit_char)
    then show ?thesis by simp
  qed
qed

lemma show_dec_digits: "list_all is_digit (show_dec n) \<and> show_dec n \<noteq> []"
proof (induction n rule: show_dec.induct)
  case (1 n)
  then show ?case
    by (cases "n < 10") (simp_all add: show_dec.simps [of n] is_digit_def of_char_digit_char)
qed

lemma show_dec_no_nl: "nl \<notin> set (show_dec n)"
proof
  assume "nl \<in> set (show_dec n)"
  with show_dec_digits [of n] have "is_digit nl" by (auto simp: list_all_iff)
  then show False by (simp add: is_digit_def)
qed

lemma marker_text_no_nl: "nl \<notin> set (marker_text k)"
  using show_dec_no_nl [of "unat k"] by (simp add: marker_text_def marker_prefix_def)

lemma parse_marker_text: "parse_marker (marker_text k) = Some (unat k)"
proof -
  let ?d = "show_dec (unat k) @ ''();''"
  have ne: "show_dec (unat k) \<noteq> []" and dg: "list_all is_digit (show_dec (unat k))"
    using show_dec_digits by auto
  then have "3 < length ?d" by (cases "show_dec (unat k)") auto
  with dg show ?thesis
    by (simp add: parse_marker_def marker_text_def Let_def read_show_dec)
qed

section \<open>The extractor loop refines its contract\<close>

lemma push_directive_eq:
  "push_directive st d =
     st\<lparr>preprocStored := preprocStored st @ [d],
        pp_out := pp_out st @ marker_text (of_nat (length (preprocStored st))) @ [nl]\<rparr>"
  by (simp add: push_directive_def Let_def vec_size_def)

lemma pre_line_eq:
  "pre_line st l =
     Some (case directive_text l of
             Some d \<Rightarrow> push_directive st d
           | None \<Rightarrow> st\<lparr>pp_out := pp_out st @ l @ [nl]\<rparr>)"
proof (cases "pubPreproc l")
  case None
  show ?thesis
  proof (cases "importPreproc l")
    case (Some f)
    obtain r where "import_path f = Some r" using import_path_total by blast
    with None Some show ?thesis by (simp add: pre_line_def directive_text_def)
  qed (use None in \<open>simp add: pre_line_def directive_text_def\<close>)
qed (simp add: pre_line_def directive_text_def)

lemma pre_lines_refines:
  "pre_lines st ls =
     Some (st\<lparr>preprocStored := preprocStored st @ directive_table ls,
              pp_out := pp_out st @ unlines (spec_lines (length (preprocStored st)) ls)\<rparr>)"
proof (induction ls arbitrary: st)
  case Nil
  then show ?case by simp
next
  case (Cons l ls)
  then show ?case
    by (cases "directive_text l") (simp_all add: pre_line_eq push_directive_eq)
qed

lemma length_spec_lines [simp]: "length (spec_lines k ls) = length ls"
  by (induction ls arbitrary: k) (auto split: option.splits)

lemma spec_lines_no_nl:
  "\<forall>l \<in> set ls. nl \<notin> set l \<Longrightarrow> l \<in> set (spec_lines k ls) \<Longrightarrow> nl \<notin> set l"
  by (induction ls arbitrary: k) (auto split: option.splits simp: marker_text_no_nl)

lemma length_directive_table:
  "length (directive_table ls) = length (filter (\<lambda>l. directive_text l \<noteq> None) ls)"
  by (induction ls) (auto split: option.splits)

lemma marker_ords_spec_lines:
  "list_all (\<lambda>l. directive_text l = None \<longrightarrow> parse_marker l = None) ls \<Longrightarrow>
   k + length ls < 2 ^ 64 \<Longrightarrow>
   marker_ords (spec_lines k ls) = [k..<k + length (directive_table ls)]"
proof (induction ls arbitrary: k)
  case Nil
  then show ?case by simp
next
  case (Cons l ls)
  show ?case
  proof (cases "directive_text l")
    case None
    with Cons show ?thesis by simp
  next
    case (Some d)
    from Cons.prems have k: "k < 2 ^ 64" by simp
    from Cons have IH: "marker_ords (spec_lines (Suc k) ls) =
        [Suc k..<Suc k + length (directive_table ls)]" by simp
    have up: "[k..<k + Suc n] = k # [Suc k..<Suc k + n]" for n
      by (simp add: upt_conv_Cons)
    have "marker_ords (spec_lines k (l # ls)) = k # marker_ords (spec_lines (Suc k) ls)"
      using Some k by (simp add: parse_marker_text)
    also have "\<dots> = k # [Suc k..<Suc k + length (directive_table ls)]"
      by (simp only: IH)
    also have "\<dots> = [k..<k + Suc (length (directive_table ls))]"
      by (simp only: up)
    finally show ?thesis using Some by simp
  qed
qed

lemma pre_preprocess_text_eq:
  "pre_preprocess_text [] src =
     Some \<lparr>preprocStored = directive_table (getlines src),
           pp_out = unlines (spec_lines 0 (getlines src))\<rparr>"
  using pre_lines_refines [of "\<lparr>preprocStored = [], pp_out = []\<rparr>" "getlines src"]
  by (simp add: pre_preprocess_text_def)

lemma getlines_pp_out:
  "getlines (unlines (spec_lines k (getlines src))) = spec_lines k (getlines src)"
proof -
  have "\<forall>l \<in> set (spec_lines k (getlines src)). nl \<notin> set l"
    using spec_lines_no_nl getlines_no_nl by blast
  then show ?thesis by (rule getlines_unlines)
qed

section \<open>Properties of the extractor\<close>

text \<open>
  C2: \<^verbatim>\<open>prePreprocess\<close> never faults, and on any input it implements the
  extractor's contract: the directive table holds the stored text of every directive
  line in order, and the output is the input's lines with the \<open>k\<close>-th directive line
  replaced by the marker declaration with ordinal \<open>k\<close>.
\<close>

theorem extractor_contract:
  "pre_preprocess_text [] src =
     Some \<lparr>preprocStored = directive_table (getlines src),
           pp_out = unlines (spec_lines 0 (getlines src))\<rparr>"
  by (rule pre_preprocess_text_eq)

text \<open>
  C3: marker round trip (\<S>8 of the specification). When no ordinary line of the input
  already reads as a marker and the line count fits in \<open>size_t\<close>, the output has as
  many lines as the input and the markers in it carry the ordinals \<open>0, 1, \<dots>, N-1\<close>
  in order, \<open>N\<close> being the number of entries of the directive table.
\<close>

theorem extractor_markers_in_order:
  assumes "list_all (\<lambda>l. directive_text l = None \<longrightarrow> parse_marker l = None) (getlines src)"
    and "length (getlines src) < 2 ^ 64"
    and "pre_preprocess_text [] src = Some st"
  shows "marker_ords (getlines (pp_out st)) = [0..<length (preprocStored st)] \<and>
         length (getlines (pp_out st)) = length (getlines src)"
proof -
  have st: "st = \<lparr>preprocStored = directive_table (getlines src),
                  pp_out = unlines (spec_lines 0 (getlines src))\<rparr>"
    using assms(3) pre_preprocess_text_eq by simp
  show ?thesis
    using marker_ords_spec_lines [OF assms(1), of 0] assms(2) by (simp add: getlines_pp_out st)
qed

theorem extractor_markers_in_order_witness:
  "list_all (\<lambda>l. directive_text l = None \<longrightarrow> parse_marker l = None)
     (getlines (''#pub include <vector>'' @ nl # ''pub void f();'' @ [nl])) \<and>
   marker_ords (getlines (pp_out \<lparr>preprocStored = [''include <vector>''],
       pp_out = unlines [marker_text 0, ''pub void f();'']\<rparr>)) = [0..<1]"
proof -
  let ?src = "''#pub include <vector>'' @ nl # ''pub void f();'' @ [nl]"
  have h1: "list_all (\<lambda>l. directive_text l = None \<longrightarrow> parse_marker l = None) (getlines ?src)"
    by code_simp
  have h2: "length (getlines ?src) < 2 ^ 64"
    by (simp add: getlines_def)
  have run: "pre_preprocess_text [] ?src = Some \<lparr>preprocStored = [''include <vector>''],
       pp_out = unlines [marker_text 0, ''pub void f();'']\<rparr>"
    by (simp add: pre_preprocess_text_eq getlines_def directive_text_def rx_directive_def
        is_space_def is_line_term_def)
  show ?thesis
    using h1 extractor_markers_in_order [OF h1 h2 run] by simp
qed

text \<open>
  C6: \<^verbatim>\<open>#import <stem.yapp>\<close> is rewritten to the header include
  \<^verbatim>\<open><stem.yapp.h>\<close>, the angle brackets kept.
\<close>

theorem import_angle_yapp_rewrite:
  "fits (''<'' @ stem @ ''.yapp>'') \<Longrightarrow>
   import_path (''<'' @ stem @ ''.yapp>'') = Some (''<'' @ stem @ ''.yapp.h>'')"
  by (rule import_angle_yapp)

theorem import_angle_yapp_rewrite_witness:
  "fits (''<'' @ ''mod'' @ ''.yapp>'') \<and> import_path ''<mod.yapp>'' = Some ''<mod.yapp.h>''"
  using import_angle_yapp_rewrite [of "''mod''"] by simp

text \<open>
  C7: \<^verbatim>\<open>#import "stem.yapp"\<close> is rewritten to \<^verbatim>\<open>"stem.yapp.h"\<close>, the
  quotes kept.
\<close>

theorem import_quoted_yapp_rewrite:
  "fits (dq # stem @ ''.yapp'' @ [dq]) \<Longrightarrow>
   import_path (dq # stem @ ''.yapp'' @ [dq]) = Some (dq # stem @ ''.yapp.h'' @ [dq])"
  by (rule import_quoted_yapp)

theorem import_quoted_yapp_rewrite_witness:
  "fits (dq # ''mod'' @ ''.yapp'' @ [dq]) \<and>
   import_path (dq # ''mod.yapp'' @ [dq]) = Some (dq # ''mod.yapp.h'' @ [dq])"
  using import_quoted_yapp_rewrite [of "''mod''"] by simp

text \<open>
  C8: a bare \<^verbatim>\<open>#import stem.yapp\<close> is rewritten to
  \<^verbatim>\<open>"stem.yapp.h.yapp.h"\<close>: the extension is replaced by \<^verbatim>\<open>.yapp.h\<close> (line 41)
  and then \<^verbatim>\<open>.yapp.h\<close> is appended again (line 48). The specification
  (\<S>4.1, \<S>8) expects \<^verbatim>\<open>"stem.yapp.h"\<close>.
\<close>

theorem import_bare_yapp_doubled:
  "fits (stem @ ''.yapp'') \<Longrightarrow>
   import_path (stem @ ''.yapp'') = Some (dq # stem @ ''.yapp.h.yapp.h'' @ [dq])"
  by (rule import_bare_yapp)

theorem import_bare_yapp_doubled_witness:
  "fits (''mod'' @ ''.yapp'') \<and> import_path ''mod.yapp'' = Some (dq # ''mod.yapp.h.yapp.h'' @ [dq])"
  using import_bare_yapp_doubled [of "''mod''"] by simp

text \<open>
  C9: the import rewrite never faults: the index \<^verbatim>\<open>importedFile.size() - 1\<close> is
  read only after \<^verbatim>\<open>importedFile[0]\<close> matched, so the string is not empty, and
  both \<^verbatim>\<open>substr\<close> calls start within the string. Even the empty payload of
  \<^verbatim>\<open>#import \<close> (a line with nothing after the keyword) yields a value.
\<close>

theorem import_path_no_fault: "import_path f \<noteq> None"
  using import_path_total [of f] by auto

text \<open>
  C27: the line \<^verbatim>\<open>#pub\<close> regular expression, declaratively: a line is recognised
  with payload \<open>p\<close> exactly when it is blanks, \<^verbatim>\<open>#pub\<close>, at least one blank and
  then \<open>p\<close>, where \<open>p\<close> starts with a non-blank (or is empty) and holds no line
  terminator.
\<close>

theorem pub_regex_iff:
  "pubPreproc l = Some p \<longleftrightarrow>
    (\<exists>ws ws'. l = ws @ ''#pub'' @ ws' @ p \<and> list_all is_space ws \<and> ws' \<noteq> [] \<and>
       list_all is_space ws' \<and> (p = [] \<or> \<not> is_space (hd p)) \<and> \<not> list_ex is_line_term p)"
  by (rule rx_directive_iff) (simp_all add: is_space_def)

text \<open>
  C28: a \<^verbatim>\<open>#pub\<close> line with a payload that ends in a carriage return (a file with
  CRLF line ends) is not recognised: \<^verbatim>\<open>.\<close> does not match the carriage return, so
  the line is copied unchanged instead of becoming a marker.
\<close>

theorem pub_regex_rejects_crlf:
  "p \<noteq> [] \<Longrightarrow> \<not> is_space (hd p) \<Longrightarrow> pubPreproc (''#pub '' @ p @ [CHR 0x0D]) = None"
proof -
  assume ne: "p \<noteq> []" and h: "\<not> is_space (hd p)"
  have "dropWhile is_space (p @ [CHR 0x0D]) = p @ [CHR 0x0D]"
    using ne h by (cases p) auto
  then show ?thesis by (simp add: rx_directive_def Let_def is_space_def is_line_term_def)
qed

theorem pub_regex_rejects_crlf_witness:
  "''include <vector>'' \<noteq> [] \<and> \<not> is_space (hd ''include <vector>'') \<and>
   pubPreproc (''#pub include <vector>'' @ [CHR 0x0D]) = None"
  using pub_regex_rejects_crlf [of "''include <vector>''"] by (simp add: is_space_def)

end
