(* ===== verification/Normalize.thy ===== *)
theory Normalize
  imports Directives
begin

text \<open>
  The AnnotationNormalizer: after \<^verbatim>\<open>clang -E\<close> has written its output,
  \<^verbatim>\<open>main\<close> (lines 207--215 of \<^verbatim>\<open>src/oldsrc/main.cpp\<close>) reads it line by line
  and writes back every line, except that a line starting with \<^verbatim>\<open>#\<close> (a line
  marker of the preprocessor) is replaced by an empty line. This theory models that loop
  and shows that it keeps the line structure, removes every such line and
  leaves the extractor's markers in place.
\<close>

definition clean_line :: "string \<Rightarrow> string" where
  "clean_line line =
     (if line = [] \<or> hd line \<noteq> CHR ''#'' then line @ [nl] else [nl])"

definition clean_text :: "string \<Rightarrow> string" where
  "clean_text s = concat (map clean_line (getlines s))"

text \<open>What each line becomes, without its newline.\<close>

definition cleaned :: "string \<Rightarrow> string" where
  "cleaned l = (if take 1 l = ''#'' then [] else l)"

section \<open>Lemmas\<close>

lemma clean_line_cleaned: "clean_line l = cleaned l @ [nl]"
  by (cases l) (auto simp: clean_line_def cleaned_def)

lemma clean_text_unlines: "clean_text s = unlines (map cleaned (getlines s))"
proof -
  have "clean_line = (\<lambda>l. cleaned l @ [nl])"
    by (rule ext) (rule clean_line_cleaned)
  then show ?thesis by (simp add: clean_text_def unlines_def o_def)
qed

lemma cleaned_no_nl: "nl \<notin> set l \<Longrightarrow> nl \<notin> set (cleaned l)"
  by (simp add: cleaned_def)

lemma cleaned_idem [simp]: "cleaned (cleaned l) = cleaned l"
  by (simp add: cleaned_def)

lemma cleaned_marker: "parse_marker (cleaned l) = parse_marker l"
proof (cases "take 1 l = ''#''")
  case True
  have p: "take 1 marker_prefix = ''p''" and len: "1 \<le> length marker_prefix"
    by (simp_all add: marker_prefix_def)
  have hash: "take 1 (take (length marker_prefix) l) = ''#''"
    using True len by (simp add: min_def)
  have ne: "take (length marker_prefix) l \<noteq> marker_prefix"
  proof
    assume eq: "take (length marker_prefix) l = marker_prefix"
    have "''#'' = take 1 marker_prefix"
      using hash arg_cong [OF eq, of "take 1"] by (simp only:)
    with p show False by simp
  qed
  from len have "take (length marker_prefix) [] \<noteq> marker_prefix"
    by (metis length_0_conv not_one_le_zero take_Nil)
  with True ne show ?thesis by (simp add: cleaned_def parse_marker_def Let_def)
qed (simp add: cleaned_def)

lemma marker_ords_map_cleaned: "marker_ords (map cleaned ls) = marker_ords ls"
  by (induction ls) (auto simp: cleaned_marker split: option.splits)

lemma getlines_clean_text: "getlines (clean_text s) = map cleaned (getlines s)"
proof -
  have "\<forall>l \<in> set (map cleaned (getlines s)). nl \<notin> set l"
    using getlines_no_nl cleaned_no_nl by auto
  then show ?thesis by (simp add: clean_text_unlines getlines_unlines)
qed

section \<open>Properties of the normalizer\<close>

text \<open>
  C13: the normalizer keeps the line structure: the cleaned text has one line per input
  line, a line starting with \<^verbatim>\<open>#\<close> becomes empty and every other line is kept.
\<close>

theorem normalize_lines:
  "getlines (clean_text s) = map cleaned (getlines s)"
  by (rule getlines_clean_text)

text \<open>C14: no line of the cleaned text starts with \<^verbatim>\<open>#\<close>.\<close>

theorem normalize_no_line_marker:
  "list_all (\<lambda>l. take 1 l \<noteq> ''#'') (getlines (clean_text s))"
  by (auto simp: getlines_clean_text list_all_iff cleaned_def)

text \<open>
  C5: the normalizer leaves the markers of the extractor where they are: the marker
  ordinals of the cleaned text are those of its input.
\<close>

theorem normalize_keeps_markers:
  "marker_ords (getlines (clean_text s)) = marker_ords (getlines s)"
  by (simp add: getlines_clean_text marker_ords_map_cleaned)

end
