(* ===== verification/Cli.thy ===== *)
theory Cli
  imports Prelude
begin

text \<open>
  The command line of \<^verbatim>\<open>main\<close> in \<^verbatim>\<open>src/oldsrc/main.cpp\<close>: the split of the
  arguments into three sections at \<^verbatim>\<open>--\<close> (lines 109--122), the option loop
  (lines 124--169) with its early exits, the file names derived from the input path and
  the output directory (lines 58, 171--178, 184--188, 257, 274, 278), the shell commands
  (lines 189--196, 258--261) and the removal of files at the end (lines 268--280).
\<close>

section \<open>Argument sections\<close>

record arg_split =
  argState :: int
  myArgs :: "string list"
  preprocArgs :: "string list"
  compileArgs :: "string list"

definition split_init :: arg_split where
  "split_init = \<lparr>argState = 0, myArgs = [], preprocArgs = [], compileArgs = []\<rparr>"

text \<open>One iteration of the loop of lines 110--122.\<close>

definition split_step :: "arg_split \<Rightarrow> string \<Rightarrow> arg_split" where
  "split_step st a =
     (if a = ''--'' then st\<lparr>argState := argState st + 1\<rparr>
      else if argState st = 0 then st\<lparr>myArgs := myArgs st @ [a]\<rparr>
      else if argState st = 1 then st\<lparr>preprocArgs := preprocArgs st @ [a]\<rparr>
      else if argState st = 2 then st\<lparr>compileArgs := compileArgs st @ [a]\<rparr>
      else st)"

definition split_args :: "string list \<Rightarrow> arg_split" where
  "split_args args = foldl split_step split_init args"

section \<open>Options\<close>

text \<open>The help text, \<^verbatim>\<open>usageString\<close> (lines 69--85), a raw literal starting with a newline.\<close>

definition usageString :: string where
  "usageString = unlines
    [[], ''Usage: yappc <source.yapp> [OPTIONS] -- [Preprocessor Args] -- [Compiler Args]'',
     ''Options:'',
     ''    -s          Toggle whether the source file is left in the output. This is useful for debugging.'',
     ''    -g          Show generated intermediate preprocessing files.'',
     ''    -h          Show this help message'',
     ''    -o <output> Specify output folder for generated files (default: same as input file)'',
     ''    -r          Remove the header from the generated .yapp.cpp file (not very useful)'',
     ''    -c          Compile the generated files.'',
     ''    --          Separator for different argument sections'',
     ''Preprocessor Args:'',
     ''    These arguments are passed directly to the preprocessor (clang -E).'',
     ''    You can use -D to define macros, e.g., -DDEBUG=1.'',
     ''Compiler Args:'',
     ''    These arguments are passed directly to the compiler (clang++).'',
     ''    You can use -o to specify the output file.'']"

record opts =
  debugMode :: bool
  sourceToggle :: bool
  removeHeader :: bool
  compileGenerated :: bool
  outputDir :: string

definition opts_init :: opts where
  "opts_init = \<lparr>debugMode = False, sourceToggle = False, removeHeader = False,
                compileGenerated = False, outputDir = []\<rparr>"

text \<open>
  The option loop of lines 129--169 over \<^verbatim>\<open>myArgs\<close>. The file system is seen
  through two parameters: \<open>ex efs d\<close> is \<^verbatim>\<open>std::filesystem::exists(d)\<close> after the
  effects \<open>efs\<close>, and \<open>mk efs d\<close> says whether
  \<^verbatim>\<open>create_directories(d)\<close> succeeds (it throws otherwise). An argument \<open>d\<close>
  after \<^verbatim>\<open>-o\<close> is taken as an option when \<^verbatim>\<open>d[0] == '-'\<close>; for the empty
  string \<^verbatim>\<open>d[0]\<close> is the terminating NUL.
\<close>

fun parse_opts ::
  "(effect list \<Rightarrow> string \<Rightarrow> bool) \<Rightarrow> (effect list \<Rightarrow> string \<Rightarrow> bool) \<Rightarrow>
   effect list \<Rightarrow> opts \<Rightarrow> string list \<Rightarrow> effect list \<times> (exit_status + opts)" where
  "parse_opts ex mk efs opt [] = (efs, Inr opt)"
| "parse_opts ex mk efs opt (arg # rest) =
     (let o1 = (if arg = ''-s'' then opt\<lparr>sourceToggle := True\<rparr> else opt);
          o2 = (if arg = ''-g'' then o1\<lparr>debugMode := True\<rparr> else o1)
      in if arg = ''-h'' then (efs @ [Out usageString], Inl (ExitCode 0))
      else if arg = ''-o'' then
        (case rest of
           [] \<Rightarrow> (efs @ [Err (''Error: -o option requires an argument.'' @ [nl])], Inl (ExitCode 1))
         | d # rest' \<Rightarrow>
             if str_at d 0 = Some (CHR ''-'')
             then (efs @ [Err (''Error: -o option requires a directory argument.'' @ [nl])],
                   Inl (ExitCode 1))
             else if ex efs d then parse_opts ex mk efs (o2\<lparr>outputDir := d\<rparr>) rest'
             else
               (let efs' = efs @ [Err (''Warning: Specified output directory does not exist. Creating: ''
                                       @ d @ [nl]), MkDirs d]
                in if mk efs d then parse_opts ex mk efs' (o2\<lparr>outputDir := d\<rparr>) rest'
                   else (efs', Inl (Terminated ''std::filesystem::filesystem_error''))))
      else
        (let o3 = (if arg = ''-r'' then o2\<lparr>removeHeader := True\<rparr> else o2);
             o4 = (if arg = ''-c'' then o3\<lparr>compileGenerated := True\<rparr> else o3)
         in parse_opts ex mk efs o4 rest))"

section \<open>File names\<close>

abbreviation seps :: "char list" where
  "seps \<equiv> [CHR ''/'', CHR 0x5C]"

text \<open>
  Lines 171--175: \<^verbatim>\<open>filename\<close> is the part of the input path after the last
  separator and before the last dot, \<^verbatim>\<open>dir\<close> the part up to and including the last
  separator. The count \<^verbatim>\<open>dot - start\<close> is a \<open>size_t\<close> subtraction.
\<close>

definition base_names :: "string \<Rightarrow> (string \<times> string) option" where
  "base_names base =
     (let slash = str_find_last_of base seps;
          dot = str_find_last_of base ''.'';
          start = (if slash = npos then 0 else slash + 1)
      in do {
           filename \<leftarrow> str_substr base start (dot - start);
           dir \<leftarrow> (if slash = npos then Some ''./'' else str_substr base 0 (slash + 1));
           Some (filename, dir)
         })"

text \<open>Lines 176--178: the output directory defaults to the input's directory.\<close>

definition effective_outdir :: "string \<Rightarrow> string \<Rightarrow> string" where
  "effective_outdir outdir dir = (if outdir = [] then dir else outdir)"

text \<open>Line 58: the name of the marker-substituted intermediate file.\<close>

definition pubpp_name :: "string \<Rightarrow> string \<Rightarrow> string option" where
  "pubpp_name inputFile outDir =
     map_option (\<lambda>n. path_join outDir (n @ ''.pubpp''))
       (str_substr inputFile (str_find_last_of inputFile seps + 1) npos)"

text \<open>
  Lines 184--188: the extension check (a failure is \<open>None\<close>) and the name of the
  preprocessor's output; \<^verbatim>\<open>substr(0, n)\<close> never throws and is \<open>take n\<close>.
\<close>

definition pyapp_name :: "string \<Rightarrow> string option" where
  "pyapp_name pubppFile =
     (if str_find pubppFile ''.yapp.pubpp'' = npos then None
      else Some (take (unat (str_size pubppFile - 6)) pubppFile @ ''.pyapp''))"

section \<open>Shell commands\<close>

text \<open>\<^verbatim>\<open>"\"" + arg + "\" "\<close>: each argument in double quotes, without escaping.\<close>

definition quote_arg :: "string \<Rightarrow> string" where
  "quote_arg a = dq # a @ [dq, CHR '' '']"

definition annotate_define :: "string \<Rightarrow> string" where
  "annotate_define kw =
     dq # ''-D'' @ kw @ ''=__attribute__((annotate('' @ CHR 0x5C # dq # kw @ CHR 0x5C # dq # '')))''
     @ [dq, CHR '' '']"

text \<open>Lines 189--196.\<close>

definition preproc_command :: "string list \<Rightarrow> string \<Rightarrow> string \<Rightarrow> string" where
  "preproc_command args pubppFile preprocOutputFile =
     ''clang -E '' @ concat (map quote_arg args) @ annotate_define ''pub'' @ annotate_define ''priv''
     @ ''-D__yaplusplus '' @ ''-x c++ '' @ dq # pubppFile @ dq # '' > '' @ dq # preprocOutputFile @ [dq]"

text \<open>Lines 257--261.\<close>

definition compile_command :: "string list \<Rightarrow> string \<Rightarrow> string \<Rightarrow> string" where
  "compile_command args outDir filename =
     ''clang++ '' @ dq # path_join outDir (filename @ ''.yapp.cpp'') @ [dq, CHR '' '']
     @ concat (map quote_arg args)"

section \<open>Cleanup\<close>

text \<open>Lines 268--280: the files removed at the end of a successful run.\<close>

definition cleanup_effects :: "opts \<Rightarrow> string \<Rightarrow> string \<Rightarrow> string \<Rightarrow> string \<Rightarrow> effect list" where
  "cleanup_effects opt outDir filename preprocOutputFile pubppFile =
     (if debugMode opt then []
      else [Remove preprocOutputFile, Remove pubppFile]
        @ (if (\<not> compileGenerated opt \<and> sourceToggle opt) \<or> (compileGenerated opt \<and> \<not> sourceToggle opt)
           then [Remove (path_join outDir (filename @ ''.yapp.cpp''))] else [])
        @ (if removeHeader opt then [Remove (path_join outDir (filename @ ''.yapp.h''))] else []))"

section \<open>Lemmas: argument sections\<close>

lemma split_step_sep [simp]: "split_step st ''--'' = st\<lparr>argState := argState st + 1\<rparr>"
  by (simp add: split_step_def)

lemma foldl_split_section:
  "''--'' \<notin> set xs \<Longrightarrow>
   foldl split_step st xs =
     (if argState st = 0 then st\<lparr>myArgs := myArgs st @ xs\<rparr>
      else if argState st = 1 then st\<lparr>preprocArgs := preprocArgs st @ xs\<rparr>
      else if argState st = 2 then st\<lparr>compileArgs := compileArgs st @ xs\<rparr>
      else st)"
  by (induction xs arbitrary: st) (auto simp: split_step_def)

lemma foldl_split_past:
  "3 \<le> argState st \<Longrightarrow>
   myArgs (foldl split_step st xs) = myArgs st \<and>
   preprocArgs (foldl split_step st xs) = preprocArgs st \<and>
   compileArgs (foldl split_step st xs) = compileArgs st"
proof (induction xs arbitrary: st)
  case Nil
  then show ?case by simp
next
  case (Cons x xs)
  have "3 \<le> argState (split_step st x)" using Cons.prems by (simp add: split_step_def)
  moreover have "myArgs (split_step st x) = myArgs st \<and> preprocArgs (split_step st x) = preprocArgs st
      \<and> compileArgs (split_step st x) = compileArgs st"
    using Cons.prems by (simp add: split_step_def)
  ultimately show ?case using Cons.IH [of "split_step st x"] by simp
qed

section \<open>Lemmas: options\<close>

lemma parse_opts_plain:
  "''-h'' \<notin> set args \<Longrightarrow> ''-o'' \<notin> set args \<Longrightarrow>
   parse_opts ex mk efs opt (args @ rest) =
     parse_opts ex mk efs
       (opt\<lparr>debugMode := debugMode opt \<or> ''-g'' \<in> set args,
            sourceToggle := sourceToggle opt \<or> ''-s'' \<in> set args,
            removeHeader := removeHeader opt \<or> ''-r'' \<in> set args,
            compileGenerated := compileGenerated opt \<or> ''-c'' \<in> set args\<rparr>) rest"
proof (induction args arbitrary: opt)
  case Nil
  then show ?case by simp
next
  case (Cons a args)
  then show ?case by (auto simp: Let_def)
qed

section \<open>Lemmas: file names\<close>

lemma unat_wrapped_count:
  assumes "x = npos \<or> unat x < unat y" and "unat y + m < 2 ^ 64"
  shows "m \<le> unat (x - y)"
proof (cases "unat y \<le> unat x")
  case True
  with assms(1) have "x = npos" by auto
  with True assms(2) show ?thesis by (simp add: unat_sub_if_size word_size)
next
  case False
  with assms(2) show ?thesis by (simp add: unat_sub_if_size word_size)
qed

lemma rfind_any_sep:
  "c \<in> set cs \<Longrightarrow> set n \<inter> set cs = {} \<Longrightarrow> rfind_any cs (d @ c # n) = Some (length d)"
proof -
  assume c: "c \<in> set cs" and n: "set n \<inter> set cs = {}"
  then have "rfind_any cs n = None" by (simp add: rfind_any_None)
  with c have "rfind_any cs (c # n) = Some 0" by simp
  then show ?thesis by (simp add: rfind_any_append)
qed

lemma last_path_join: "b \<noteq> [] \<Longrightarrow> last (path_join a b) = last b"
  by (simp add: path_join_def)

section \<open>Properties of the command line\<close>

text \<open>
  C15: with two separators, the arguments before the first \<^verbatim>\<open>--\<close> are the
  program's options, those between the separators go to the preprocessor and the rest to
  the compiler.
\<close>

theorem split_args_sections:
  assumes "''--'' \<notin> set A" "''--'' \<notin> set B" "''--'' \<notin> set C"
  shows "split_args (A @ ''--'' # B @ ''--'' # C) =
           \<lparr>argState = 2, myArgs = A, preprocArgs = B, compileArgs = C\<rparr>"
  using assms by (simp add: split_args_def split_init_def foldl_split_section)

theorem split_args_sections_witness:
  "''--'' \<notin> set [''-c''] \<and> ''--'' \<notin> set [''-DX''] \<and> ''--'' \<notin> set [''-O2''] \<and>
   split_args [''-c'', ''--'', ''-DX'', ''--'', ''-O2''] =
     \<lparr>argState = 2, myArgs = [''-c''], preprocArgs = [''-DX''], compileArgs = [''-O2'']\<rparr>"
  using split_args_sections [of "[''-c'']" "[''-DX'']" "[''-O2'']"] by simp

text \<open>
  C16: arguments after a third \<^verbatim>\<open>--\<close> are dropped without a diagnostic: the
  sections are those of the first three, whatever follows.
\<close>

theorem split_args_third_separator:
  assumes "''--'' \<notin> set A" "''--'' \<notin> set B" "''--'' \<notin> set C"
  shows "myArgs (split_args (A @ ''--'' # B @ ''--'' # C @ ''--'' # D)) = A \<and>
         preprocArgs (split_args (A @ ''--'' # B @ ''--'' # C @ ''--'' # D)) = B \<and>
         compileArgs (split_args (A @ ''--'' # B @ ''--'' # C @ ''--'' # D)) = C"
proof -
  let ?st = "foldl split_step split_init (A @ ''--'' # B @ ''--'' # C @ [''--''])"
  have st: "?st = \<lparr>argState = 3, myArgs = A, preprocArgs = B, compileArgs = C\<rparr>"
    using assms by (simp add: split_init_def foldl_split_section)
  have "split_args (A @ ''--'' # B @ ''--'' # C @ ''--'' # D) = foldl split_step ?st D"
    by (simp add: split_args_def)
  then have eq: "split_args (A @ ''--'' # B @ ''--'' # C @ ''--'' # D) =
      foldl split_step \<lparr>argState = 3, myArgs = A, preprocArgs = B, compileArgs = C\<rparr> D"
    by (simp only: st)
  show ?thesis
    using foldl_split_past [of "\<lparr>argState = 3, myArgs = A, preprocArgs = B, compileArgs = C\<rparr>" D]
    by (simp only: eq) simp
qed

theorem split_args_third_separator_witness:
  "''--'' \<notin> set [''-c''] \<and> ''--'' \<notin> set [''-DX''] \<and> ''--'' \<notin> set [''-O2''] \<and>
   compileArgs (split_args [''-c'', ''--'', ''-DX'', ''--'', ''-O2'', ''--'', ''-g'']) = [''-O2'']"
  using split_args_third_separator [of "[''-c'']" "[''-DX'']" "[''-O2'']" "[''-g'']"] by simp

text \<open>
  C17: without \<^verbatim>\<open>-h\<close> and \<^verbatim>\<open>-o\<close>, the option loop succeeds with no effect and
  sets each flag exactly when its option occurs (\<^verbatim>\<open>-g\<close>, \<^verbatim>\<open>-s\<close>, \<^verbatim>\<open>-r\<close>,
  \<^verbatim>\<open>-c\<close>), other arguments being ignored.
\<close>

theorem parse_opts_flags:
  "''-h'' \<notin> set args \<Longrightarrow> ''-o'' \<notin> set args \<Longrightarrow>
   parse_opts ex mk efs opts_init args =
     (efs, Inr \<lparr>debugMode = ''-g'' \<in> set args, sourceToggle = ''-s'' \<in> set args,
               removeHeader = ''-r'' \<in> set args, compileGenerated = ''-c'' \<in> set args,
               outputDir = []\<rparr>)"
  using parse_opts_plain [of args ex mk efs opts_init "[]"] by (simp add: opts_init_def)

theorem parse_opts_flags_witness:
  "''-h'' \<notin> set [''-s'', ''-c''] \<and> ''-o'' \<notin> set [''-s'', ''-c''] \<and>
   parse_opts (\<lambda>_ _. True) (\<lambda>_ _. True) [] opts_init [''-s'', ''-c''] =
     ([], Inr \<lparr>debugMode = False, sourceToggle = True, removeHeader = False,
              compileGenerated = True, outputDir = []\<rparr>)"
  using parse_opts_flags [of "[''-s'', ''-c'']" "\<lambda>_ _. True" "\<lambda>_ _. True" "[]"] by simp

text \<open>
  C18: \<^verbatim>\<open>-o\<close> as the last option is an error: the loop reports that the option
  needs an argument and the program exits with status 1.
\<close>

theorem parse_opts_missing_dir:
  "''-h'' \<notin> set args \<Longrightarrow> ''-o'' \<notin> set args \<Longrightarrow>
   parse_opts ex mk efs opt (args @ [''-o'']) =
     (efs @ [Err (''Error: -o option requires an argument.'' @ [nl])], Inl (ExitCode 1))"
  by (simp add: parse_opts_plain)

theorem parse_opts_missing_dir_witness:
  "''-h'' \<notin> set [''-s''] \<and> ''-o'' \<notin> set [''-s''] \<and>
   parse_opts (\<lambda>_ _. True) (\<lambda>_ _. True) [] opts_init [''-s'', ''-o''] =
     ([Err (''Error: -o option requires an argument.'' @ [nl])], Inl (ExitCode 1))"
  using parse_opts_missing_dir [of "[''-s'']"] by simp

text \<open>
  C19: \<^verbatim>\<open>-h\<close> prints the usage text and ends the program with status 0, whatever
  follows it, provided no earlier \<^verbatim>\<open>-o\<close> has ended it first.
\<close>

theorem parse_opts_help:
  "''-h'' \<notin> set args \<Longrightarrow> ''-o'' \<notin> set args \<Longrightarrow>
   parse_opts ex mk efs opt (args @ ''-h'' # rest) = (efs @ [Out usageString], Inl (ExitCode 0))"
  by (simp add: parse_opts_plain)

theorem parse_opts_help_witness:
  "''-h'' \<notin> set [''-c''] \<and> ''-o'' \<notin> set [''-c''] \<and>
   parse_opts (\<lambda>_ _. True) (\<lambda>_ _. True) [] opts_init [''-c'', ''-h'', ''-o''] =
     ([Out usageString], Inl (ExitCode 0))"
  using parse_opts_help [of "[''-c'']"] by simp

text \<open>
  C21: the base name and directory of an input path
  \<^verbatim>\<open>d/stem.ext\<close>: \<^verbatim>\<open>filename\<close> is the stem between the last separator and the
  last dot, \<^verbatim>\<open>dir\<close> the path up to and including the last separator.
\<close>

theorem base_names_split:
  assumes f: "fits (d @ sep # stem @ ''.'' @ ext)" and s: "sep \<in> set seps"
    and n: "set (stem @ ''.'' @ ext) \<inter> set seps = {}" and e: "CHR ''.'' \<notin> set ext"
  shows "base_names (d @ sep # stem @ ''.'' @ ext) = Some (stem, d @ [sep])"
proof -
  let ?b = "d @ sep # stem @ ''.'' @ ext"
  have sl: "str_find_last_of ?b seps = of_nat (length d)"
    using rfind_any_sep [OF s n, of d] by (simp add: str_find_last_of_def)
  have "rfind_any ''.'' ((d @ sep # stem) @ CHR ''.'' # ext) = Some (length (d @ sep # stem))"
    using e by (intro rfind_any_sep) auto
  then have dt: "str_find_last_of ?b ''.'' = of_nat (length d + 1 + length stem)"
    by (simp add: str_find_last_of_def)
  from f have ne: "(of_nat (length d) :: size_t) \<noteq> npos"
    by (intro of_nat_neq_npos) simp
  have start: "(of_nat (length d) :: size_t) + 1 = of_nat (length d + 1)" by simp
  have cnt: "(of_nat (length d + 1 + length stem) :: size_t) - of_nat (length d + 1) =
      of_nat (length stem)" by simp
  have "length d + 1 < 2 ^ 64" using f by simp
  then have u1: "unat (of_nat (length d + 1) :: size_t) = length d + 1"
    by (rule unat_of_nat_fits)
  then have u1': "unat (1 + of_nat (length d) :: size_t) = length d + 1"
    by (simp add: add.commute)
  have u2: "unat (of_nat (length stem) :: size_t) = length stem"
    using f by simp
  have "str_substr ?b (of_nat (length d + 1)) (of_nat (length stem)) = Some stem"
    using f by (simp add: str_substr_def u1 u1' u2)
  moreover have "str_substr ?b 0 (of_nat (length d + 1)) = Some (d @ [sep])"
    by (simp add: str_substr_def u1 u1')
  ultimately show ?thesis
    using sl dt ne cnt by (simp add: base_names_def Let_def algebra_simps)
qed

theorem base_names_split_witness:
  "fits (''src'' @ CHR ''/'' # ''main'' @ ''.'' @ ''yapp'') \<and> CHR ''/'' \<in> set seps \<and>
   set (''main'' @ ''.'' @ ''yapp'') \<inter> set seps = {} \<and> CHR ''.'' \<notin> set ''yapp'' \<and>
   base_names ''src/main.yapp'' = Some (''main'', ''src/'')"
  using base_names_split [of "''src''" "CHR ''/''" "''main''" "''yapp''"] by simp

text \<open>
  C22: when the file name after the last separator has no dot, the count
  \<^verbatim>\<open>dot - start\<close> of line 174 wraps around (the last dot is in the directory part,
  or there is none and \<^verbatim>\<open>dot\<close> is \<^verbatim>\<open>npos\<close>); the wrapped count exceeds the rest
  of the string, so \<^verbatim>\<open>filename\<close> is the whole file name.
\<close>

theorem base_names_no_dot_wraps:
  assumes f: "fits (d @ sep # n)" and s: "sep \<in> set seps"
    and n: "set n \<inter> set seps = {}" and e: "CHR ''.'' \<notin> set n"
  shows "base_names (d @ sep # n) = Some (n, d @ [sep])"
proof -
  let ?b = "d @ sep # n"
  have sl: "str_find_last_of ?b seps = of_nat (length d)"
    using rfind_any_sep [OF s n, of d] by (simp add: str_find_last_of_def)
  from f have ne: "(of_nat (length d) :: size_t) \<noteq> npos"
    by (intro of_nat_neq_npos) simp
  have "length d + 1 < 2 ^ 64" using f by simp
  then have u1: "unat (of_nat (length d + 1) :: size_t) = length d + 1"
    by (rule unat_of_nat_fits)
  then have u1': "unat (1 + of_nat (length d) :: size_t) = length d + 1"
    by (simp add: add.commute)
  have sep_dot: "sep \<noteq> CHR ''.''" using s by auto
  have "rfind_any ''.'' n = None"
    using e by (subst rfind_any_None) auto
  then have "rfind_any ''.'' (sep # n) = None"
    using sep_dot by simp
  then have dot_in_d: "rfind_any ''.'' ?b = rfind_any ''.'' d"
    by (simp add: rfind_any_append)
  have wrap: "str_find_last_of ?b ''.'' = npos \<or>
      unat (str_find_last_of ?b ''.'') < unat (of_nat (length d + 1) :: size_t)"
  proof (cases "rfind_any ''.'' d")
    case None
    with dot_in_d show ?thesis by (simp add: str_find_last_of_def)
  next
    case (Some j)
    then have "j < length d" using rfind_any_Some by blast
    with f Some dot_in_d show ?thesis by (simp add: str_find_last_of_def u1 u1')
  qed
  have "length n \<le> unat (str_find_last_of ?b ''.'' - of_nat (length d + 1))"
    using unat_wrapped_count [OF wrap] f by (simp add: u1 u1')
  then have "str_substr ?b (of_nat (length d + 1)) (str_find_last_of ?b ''.'' - of_nat (length d + 1))
      = Some n"
    by (simp add: str_substr_def u1 u1')
  moreover have "str_substr ?b 0 (of_nat (length d + 1)) = Some (d @ [sep])"
    by (simp add: str_substr_def u1 u1')
  moreover have "(of_nat (length d) :: size_t) + 1 = of_nat (length d + 1)" by simp
  ultimately show ?thesis
    using sl ne by (simp add: base_names_def Let_def algebra_simps)
qed

theorem base_names_no_dot_wraps_witness:
  "fits (''a.b'' @ CHR ''/'' # ''c'') \<and> CHR ''/'' \<in> set seps \<and> set ''c'' \<inter> set seps = {} \<and>
   CHR ''.'' \<notin> set ''c'' \<and> base_names ''a.b/c'' = Some (''c'', ''a.b/'')"
  using base_names_no_dot_wraps [of "''a.b''" "CHR ''/''" "''c''"] by simp

text \<open>
  C23: for an input path without a separator, \<^verbatim>\<open>find_last_of("/\\") + 1\<close> of
  line 58 is \<^verbatim>\<open>npos + 1\<close>, which wraps to 0: the intermediate file is named after
  the whole input path.
\<close>

theorem pubpp_name_no_dir:
  "fits n \<Longrightarrow> set n \<inter> set seps = {} \<Longrightarrow>
   pubpp_name n outDir = Some (path_join outDir (n @ ''.pubpp''))"
proof -
  assume f: "fits n" and s: "set n \<inter> set seps = {}"
  then have "rfind_any seps n = None" by (subst rfind_any_None)
  then have "str_find_last_of n seps = npos" by (simp add: str_find_last_of_def)
  with f show ?thesis by (simp add: pubpp_name_def str_substr_def)
qed

theorem pubpp_name_no_dir_witness:
  "fits ''main.yapp'' \<and> set ''main.yapp'' \<inter> set seps = {} \<and>
   pubpp_name ''main.yapp'' ''./'' = Some ''./main.yapp.pubpp''"
  using pubpp_name_no_dir [of "''main.yapp''" "''./''"] by (simp add: path_join_def)

text \<open>
  C24: the extension check of line 184 accepts the intermediate file of a
  \<^verbatim>\<open>.yapp\<close> input, and the preprocessor's output is named \<^verbatim>\<open>p.yapp.pyapp\<close>.
\<close>

theorem pyapp_name_yapp:
  "fits (p @ ''.yapp.pubpp'') \<Longrightarrow> pyapp_name (p @ ''.yapp.pubpp'') = Some (p @ ''.yapp.pyapp'')"
proof -
  assume f: "fits (p @ ''.yapp.pubpp'')"
  have "find_idx ''.yapp.pubpp'' (p @ ''.yapp.pubpp'') \<noteq> None"
    by (subst find_idx_None) (metis append_Nil2)
  then obtain i where "find_idx ''.yapp.pubpp'' (p @ ''.yapp.pubpp'') = Some i" by blast
  with f have "str_find (p @ ''.yapp.pubpp'') ''.yapp.pubpp'' \<noteq> npos"
    by (intro str_find_found(2)) auto
  moreover have "unat (str_size (p @ ''.yapp.pubpp'') - of_nat 6) = length p + 5"
    using unat_str_size_minus [OF f, of 6] by simp
  ultimately show ?thesis by (simp add: pyapp_name_def)
qed

theorem pyapp_name_yapp_witness:
  "fits (''out/main'' @ ''.yapp.pubpp'') \<and>
   pyapp_name ''out/main.yapp.pubpp'' = Some ''out/main.yapp.pyapp''"
  using pyapp_name_yapp [of "''out/main''"] by simp

text \<open>
  C25: the extension check is a substring search over the whole intermediate path, not a
  test of the input's extension: whenever the output directory's path contains
  \<^verbatim>\<open>.yapp.pubpp\<close>, an input of any extension passes it.
\<close>

theorem pyapp_name_any_input:
  assumes f: "fits (dir @ ''/'' @ n @ ''.pubpp'')" and d: "find_idx ''.yapp.pubpp'' dir \<noteq> None"
  shows "pyapp_name (dir @ ''/'' @ n @ ''.pubpp'') = Some (dir @ ''/'' @ n @ ''.pyapp'')"
proof -
  let ?f = "dir @ ''/'' @ n @ ''.pubpp''"
  from d obtain xs ys where "dir = xs @ ''.yapp.pubpp'' @ ys"
    by (auto simp: find_idx_None)
  then have "?f = xs @ ''.yapp.pubpp'' @ (ys @ ''/'' @ n @ ''.pubpp'')" by simp
  then have "find_idx ''.yapp.pubpp'' ?f \<noteq> None"
    by (subst find_idx_None) blast
  then obtain i where "find_idx ''.yapp.pubpp'' ?f = Some i" by blast
  with f have "str_find ?f ''.yapp.pubpp'' \<noteq> npos"
    by (intro str_find_found(2)) auto
  moreover have "unat (str_size ?f - of_nat 6) = length dir + 1 + length n"
    using unat_str_size_minus [OF f, of 6] by simp
  ultimately show ?thesis by (simp add: pyapp_name_def)
qed

theorem pyapp_name_any_input_witness:
  "fits (''x.yapp.pubpp'' @ ''/'' @ ''foo.cpp'' @ ''.pubpp'') \<and>
   find_idx ''.yapp.pubpp'' ''x.yapp.pubpp'' \<noteq> None \<and>
   pyapp_name ''x.yapp.pubpp/foo.cpp.pubpp'' = Some ''x.yapp.pubpp/foo.cpp.pyapp''"
  using pyapp_name_any_input [of "''x.yapp.pubpp''" "''foo.cpp''"] by simp

text \<open>
  C26: at the end of a run the generated \<^verbatim>\<open>.yapp.cpp\<close> file is removed exactly
  when the run is not in debug mode (\<^verbatim>\<open>-g\<close>) and exactly one of \<^verbatim>\<open>-s\<close> and
  \<^verbatim>\<open>-c\<close> was given (line 273).
\<close>

theorem cleanup_removes_source:
  assumes "preprocOutputFile \<noteq> path_join outDir (filename @ ''.yapp.cpp'')"
    and "pubppFile \<noteq> path_join outDir (filename @ ''.yapp.cpp'')"
  shows "Remove (path_join outDir (filename @ ''.yapp.cpp''))
           \<in> set (cleanup_effects opt outDir filename preprocOutputFile pubppFile) \<longleftrightarrow>
         \<not> debugMode opt \<and> sourceToggle opt \<noteq> compileGenerated opt"
proof -
  have "last (path_join outDir (filename @ ''.yapp.h'')) \<noteq>
        last (path_join outDir (filename @ ''.yapp.cpp''))"
    by (simp add: last_path_join)
  then have "path_join outDir (filename @ ''.yapp.h'') \<noteq> path_join outDir (filename @ ''.yapp.cpp'')"
    by metis
  with assms show ?thesis by (auto simp: cleanup_effects_def)
qed

theorem cleanup_removes_source_witness:
  "''out/m.yapp.pyapp'' \<noteq> path_join ''out'' (''m'' @ ''.yapp.cpp'') \<and>
   ''out/m.yapp.pubpp'' \<noteq> path_join ''out'' (''m'' @ ''.yapp.cpp'') \<and>
   Remove ''out/m.yapp.cpp'' \<in> set (cleanup_effects (opts_init\<lparr>compileGenerated := True\<rparr>)
     ''out'' ''m'' ''out/m.yapp.pyapp'' ''out/m.yapp.pubpp'')"
proof -
  have h: "''out/m.yapp.pyapp'' \<noteq> path_join ''out'' (''m'' @ ''.yapp.cpp'')"
    "''out/m.yapp.pubpp'' \<noteq> path_join ''out'' (''m'' @ ''.yapp.cpp'')"
    by (simp_all add: path_join_def)
  show ?thesis
    using h cleanup_removes_source [OF h, of "opts_init\<lparr>compileGenerated := True\<rparr>"]
    by (simp add: opts_init_def path_join_def)
qed

end
