(* ===== verification/Partition.thy ===== *)
theory Partition
  imports Directives
begin

text \<open>
  The DeclarationPartitioner: \<^verbatim>\<open>main\<close> hands every top-level cursor of the
  libclang translation unit to \<^verbatim>\<open>visitor\<close> (line 251), defined in
  \<^verbatim>\<open>visitor.h\<close>, which is not part of the repository. It is modelled here from
  \<S>4.3 of the specification: a cursor over the directive table; a marker declaration
  must carry the ordinal the cursor expects and is replaced by the reconstructed directive
  in the public document; other declarations go to the public or the private document by
  their annotation, unannotated ones to the private one; at the end every directive must
  have been met. The declarations are given through the narrow interface of \<S>9: a list
  of (source text, annotation, marker ordinal).
\<close>

datatype visibility = Public | Private | Unannotated

record decl =
  sourceText :: string
  visibility :: visibility
  marker :: "nat option"

datatype fragment = DirectiveFrag string | DeclFrag string

datatype structural_error =
    OrdinalMismatch nat nat
  | UnknownMarker nat
  | MissingMarkers nat nat

record part_state =
  cursor :: nat
  publicDoc :: "fragment list"
  privateDoc :: "fragment list"

text \<open>A stored \<^verbatim>\<open>include <vector>\<close> is emitted as \<^verbatim>\<open>#include <vector>\<close>.\<close>

definition reconstruct :: "string \<Rightarrow> string" where
  "reconstruct d = ''#'' @ d"

definition partition_step :: "string list \<Rightarrow> part_state \<Rightarrow> decl \<Rightarrow> structural_error + part_state" where
  "partition_step tbl st dcl =
     (case marker dcl of
        Some k \<Rightarrow>
          if k = cursor st \<and> cursor st < length tbl
          then Inr (st\<lparr>publicDoc := publicDoc st @ [DirectiveFrag (reconstruct (tbl ! cursor st))],
                       cursor := Suc (cursor st)\<rparr>)
          else if k = cursor st then Inl (UnknownMarker k)
          else Inl (OrdinalMismatch (cursor st) k)
      | None \<Rightarrow>
          (case visibility dcl of
             Public \<Rightarrow> Inr (st\<lparr>publicDoc := publicDoc st @ [DeclFrag (sourceText dcl)]\<rparr>)
           | _ \<Rightarrow> Inr (st\<lparr>privateDoc := privateDoc st @ [DeclFrag (sourceText dcl)]\<rparr>)))"

fun partition_run :: "string list \<Rightarrow> part_state \<Rightarrow> decl list \<Rightarrow> structural_error + part_state" where
  "partition_run tbl st [] = Inr st"
| "partition_run tbl st (d # ds) =
     (case partition_step tbl st d of Inl e \<Rightarrow> Inl e | Inr st' \<Rightarrow> partition_run tbl st' ds)"

definition partition_decls ::
  "string list \<Rightarrow> decl list \<Rightarrow> structural_error + (fragment list \<times> fragment list)" where
  "partition_decls tbl ds =
     (case partition_run tbl \<lparr>cursor = 0, publicDoc = [], privateDoc = []\<rparr> ds of
        Inl e \<Rightarrow> Inl e
      | Inr st \<Rightarrow>
          if cursor st = length tbl then Inr (publicDoc st, privateDoc st)
          else Inl (MissingMarkers (cursor st) (length tbl)))"

text \<open>The marker ordinals of the declarations, in order.\<close>

fun decl_markers :: "decl list \<Rightarrow> nat list" where
  "decl_markers [] = []"
| "decl_markers (d # ds) =
     (case marker d of Some k \<Rightarrow> k # decl_markers ds | None \<Rightarrow> decl_markers ds)"

text \<open>Declarations that are not markers, with the given annotation test.\<close>

definition plain_texts :: "(visibility \<Rightarrow> bool) \<Rightarrow> decl list \<Rightarrow> string list" where
  "plain_texts P ds = map sourceText (filter (\<lambda>d. marker d = None \<and> P (visibility d)) ds)"

fun decl_texts :: "fragment list \<Rightarrow> string list" where
  "decl_texts [] = []"
| "decl_texts (DirectiveFrag _ # fs) = decl_texts fs"
| "decl_texts (DeclFrag t # fs) = t # decl_texts fs"

fun directive_texts :: "fragment list \<Rightarrow> string list" where
  "directive_texts [] = []"
| "directive_texts (DirectiveFrag t # fs) = t # directive_texts fs"
| "directive_texts (DeclFrag _ # fs) = directive_texts fs"

section \<open>Lemmas\<close>

lemma decl_texts_append [simp]: "decl_texts (xs @ ys) = decl_texts xs @ decl_texts ys"
  by (induction xs rule: decl_texts.induct) auto

lemma directive_texts_append [simp]:
  "directive_texts (xs @ ys) = directive_texts xs @ directive_texts ys"
  by (induction xs rule: directive_texts.induct) auto

lemma partition_step_marker:
  "marker d = Some k \<Longrightarrow>
   partition_step tbl st d =
     (if k = cursor st \<and> cursor st < length tbl
      then Inr (st\<lparr>publicDoc := publicDoc st @ [DirectiveFrag (reconstruct (tbl ! cursor st))],
                   cursor := Suc (cursor st)\<rparr>)
      else if k = cursor st then Inl (UnknownMarker k) else Inl (OrdinalMismatch (cursor st) k))"
  by (simp add: partition_step_def)

lemma partition_step_plain:
  "marker d = None \<Longrightarrow>
   partition_step tbl st d =
     (if visibility d = Public
      then Inr (st\<lparr>publicDoc := publicDoc st @ [DeclFrag (sourceText d)]\<rparr>)
      else Inr (st\<lparr>privateDoc := privateDoc st @ [DeclFrag (sourceText d)]\<rparr>))"
  by (cases "visibility d") (simp_all add: partition_step_def)

text \<open>
  What a successful run has done: the cursor advanced over the markers met, which carried
  the ordinals the cursor expected, within the table; the plain declarations went, in
  order, to the document of their annotation; the public document received the
  reconstructed directives of the table slice passed, the private one none.
\<close>

lemma partition_run_ok:
  "partition_run tbl st ds = Inr st' \<Longrightarrow> cursor st \<le> length tbl \<Longrightarrow>
     decl_markers ds = [cursor st..<cursor st'] \<and> cursor st \<le> cursor st' \<and> cursor st' \<le> length tbl \<and>
     decl_texts (publicDoc st') = decl_texts (publicDoc st) @ plain_texts (\<lambda>v. v = Public) ds \<and>
     decl_texts (privateDoc st') = decl_texts (privateDoc st) @ plain_texts (\<lambda>v. v \<noteq> Public) ds \<and>
     directive_texts (publicDoc st') =
       directive_texts (publicDoc st) @ map reconstruct (take (cursor st' - cursor st) (drop (cursor st) tbl)) \<and>
     directive_texts (privateDoc st') = directive_texts (privateDoc st)"
proof (induction ds arbitrary: st)
  case Nil
  then show ?case by (simp add: plain_texts_def)
next
  case (Cons d ds)
  show ?case
  proof (cases "marker d")
    case None
    show ?thesis
    proof (cases "visibility d = Public")
      case True
      let ?st = "st\<lparr>publicDoc := publicDoc st @ [DeclFrag (sourceText d)]\<rparr>"
      from Cons.prems None True have run: "partition_run tbl ?st ds = Inr st'"
        by (simp add: partition_step_plain)
      from Cons.IH [OF run] Cons.prems(2) None True show ?thesis
        by (simp add: plain_texts_def)
    next
      case False
      let ?st = "st\<lparr>privateDoc := privateDoc st @ [DeclFrag (sourceText d)]\<rparr>"
      from Cons.prems None False have run: "partition_run tbl ?st ds = Inr st'"
        by (simp add: partition_step_plain)
      from Cons.IH [OF run] Cons.prems(2) None False show ?thesis
        by (simp add: plain_texts_def)
    qed
  next
    case (Some k)
    with Cons.prems have k: "k = cursor st" and lt: "cursor st < length tbl"
      by (auto simp: partition_step_marker split: if_splits)
    let ?st = "st\<lparr>publicDoc := publicDoc st @ [DirectiveFrag (reconstruct (tbl ! cursor st))],
                   cursor := Suc (cursor st)\<rparr>"
    from Cons.prems Some k lt have run: "partition_run tbl ?st ds = Inr st'"
      by (simp add: partition_step_marker)
    have IH: "decl_markers ds = [Suc (cursor st)..<cursor st'] \<and> Suc (cursor st) \<le> cursor st' \<and>
       cursor st' \<le> length tbl \<and>
       decl_texts (publicDoc st') = decl_texts (publicDoc st) @ plain_texts (\<lambda>v. v = Public) ds \<and>
       decl_texts (privateDoc st') = decl_texts (privateDoc st) @ plain_texts (\<lambda>v. v \<noteq> Public) ds \<and>
       directive_texts (publicDoc st') = directive_texts (publicDoc st) @
         [reconstruct (tbl ! cursor st)] @
         map reconstruct (take (cursor st' - Suc (cursor st)) (drop (Suc (cursor st)) tbl)) \<and>
       directive_texts (privateDoc st') = directive_texts (privateDoc st)"
      using Cons.IH [OF run] lt by simp
    have tk: "take (cursor st' - cursor st) (drop (cursor st) tbl) =
          tbl ! cursor st # take (cursor st' - Suc (cursor st)) (drop (Suc (cursor st)) tbl)"
    proof -
      from IH have "Suc (cursor st) \<le> cursor st'" by blast
      then have "cursor st' - cursor st = Suc (cursor st' - Suc (cursor st))" by arith
      then show ?thesis by (simp only: Cons_nth_drop_Suc [OF lt, symmetric] take_Suc_Cons)
    qed
    have up: "[cursor st..<cursor st'] = cursor st # [Suc (cursor st)..<cursor st']"
      using IH by (simp add: upt_conv_Cons del: upt_Suc)
    show ?thesis
      using IH Some k by (simp only: tk up) (simp add: plain_texts_def)
  qed
qed

lemma partition_run_succeeds:
  "decl_markers ds = [cursor st..<cursor st + length (decl_markers ds)] \<Longrightarrow>
   cursor st + length (decl_markers ds) \<le> length tbl \<Longrightarrow>
   \<exists>st'. partition_run tbl st ds = Inr st'"
proof (induction ds arbitrary: st)
  case Nil
  then show ?case by simp
next
  case (Cons d ds)
  show ?case
  proof (cases "marker d")
    case None
    with Cons show ?thesis
      by (cases "visibility d = Public") (simp_all add: partition_step_plain)
  next
    case (Some k)
    let ?m = "length (decl_markers ds)"
    from Cons.prems(1) Some have ks: "k # decl_markers ds = [cursor st..<cursor st + Suc ?m]"
      by simp
    then have k: "k = cursor st" by (simp add: upt_conv_Cons del: upt_Suc)
    from ks have rest: "decl_markers ds = [Suc (cursor st)..<Suc (cursor st) + ?m]"
      by (simp add: upt_conv_Cons del: upt_Suc)
    from Cons.prems(2) Some have lt: "cursor st < length tbl" and le: "Suc (cursor st) + ?m \<le> length tbl"
      by simp_all
    let ?st = "st\<lparr>publicDoc := publicDoc st @ [DirectiveFrag (reconstruct (tbl ! cursor st))],
                   cursor := Suc (cursor st)\<rparr>"
    have "\<exists>st'. partition_run tbl ?st ds = Inr st'"
      using Cons.IH [of ?st] rest le by simp
    with Some k lt show ?thesis by (simp add: partition_step_marker)
  qed
qed

section \<open>The partitioner's contract\<close>

abbreviation part_init :: part_state where
  "part_init \<equiv> \<lparr>cursor = 0, publicDoc = [], privateDoc = []\<rparr>"

lemma partition_decls_Inr:
  "partition_decls tbl ds = Inr p \<longleftrightarrow>
     (\<exists>st'. partition_run tbl part_init ds = Inr st' \<and> cursor st' = length tbl \<and>
            p = (publicDoc st', privateDoc st'))"
proof (cases "partition_run tbl part_init ds")
  case (Inl e)
  then show ?thesis by (simp add: partition_decls_def)
next
  case (Inr st')
  then show ?thesis by (auto simp: partition_decls_def)
qed

lemma partition_decls_ok_iff:
  "(\<exists>p. partition_decls tbl ds = Inr p) \<longleftrightarrow> decl_markers ds = [0..<length tbl]"
proof
  assume "\<exists>p. partition_decls tbl ds = Inr p"
  then obtain st' where run: "partition_run tbl part_init ds = Inr st'"
    and c: "cursor st' = length tbl"
    by (auto simp: partition_decls_Inr)
  have "decl_markers ds = [cursor part_init..<cursor st']"
    using partition_run_ok [OF run] by simp
  with c show "decl_markers ds = [0..<length tbl]" by simp
next
  assume m: "decl_markers ds = [0..<length tbl]"
  then obtain st' where run: "partition_run tbl part_init ds = Inr st'"
    using partition_run_succeeds [of ds part_init tbl] by auto
  have "decl_markers ds = [cursor part_init..<cursor st']"
    using partition_run_ok [OF run] by simp
  with m have "length [0..<cursor st'] = length [0..<length tbl]" by simp
  then have "cursor st' = length tbl" by simp
  with run show "\<exists>p. partition_decls tbl ds = Inr p" by (auto simp: partition_decls_Inr)
qed

lemma partition_decls_docs:
  "partition_decls tbl ds = Inr (pub, priv) \<Longrightarrow>
     decl_texts pub = plain_texts (\<lambda>v. v = Public) ds \<and>
     decl_texts priv = plain_texts (\<lambda>v. v \<noteq> Public) ds \<and>
     directive_texts pub = map reconstruct tbl \<and> directive_texts priv = []"
proof -
  assume "partition_decls tbl ds = Inr (pub, priv)"
  then obtain st' where run: "partition_run tbl part_init ds = Inr st'"
    and c: "cursor st' = length tbl" and pub: "publicDoc st' = pub" and priv: "privateDoc st' = priv"
    by (auto simp: partition_decls_Inr)
  from partition_run_ok [OF run] c pub priv show ?thesis by simp
qed

end
