(* ===== verification/Emit.thy ===== *)
theory Emit
  imports Partition
begin

text \<open>
  The FileEmitter: \<^verbatim>\<open>main\<close> calls \<^verbatim>\<open>writeFiles(filename, outputDir)\<close>
  (line 253), defined in \<^verbatim>\<open>file_writer.h\<close>, which is not part of the repository.
  It is modelled here from \<S>4.4 of the specification: the header
  \<^verbatim>\<open><base>.yapp.h\<close> is the public document, each fragment followed by the
  statement terminator and a newline, after an optional banner; the implementation file
  \<^verbatim>\<open><base>.yapp.cpp\<close> starts with the include of that header and then holds the
  private document. The banner's text is not given by the specification and is a
  parameter; \<^verbatim>\<open>main\<close> passes no option, so the banner is always written.
  Writing is an effect on the file store: the two \<open>WriteFile\<close> effects, or the
  \<open>IoError\<close> of the specification when the directory cannot be written.
\<close>

fun frag_text :: "fragment \<Rightarrow> string" where
  "frag_text (DirectiveFrag t) = t"
| "frag_text (DeclFrag t) = t"

definition frag_line :: "fragment \<Rightarrow> string" where
  "frag_line f = frag_text f @ '';'' @ [nl]"

definition emit_header :: "bool \<Rightarrow> string \<Rightarrow> fragment list \<Rightarrow> string" where
  "emit_header omitBanner banner pub =
     (if omitBanner then [] else banner) @ concat (map frag_line pub)"

definition header_include :: "string \<Rightarrow> string" where
  "header_include base = ''#include '' @ dq # base @ ''.yapp.h'' @ [dq, nl]"

definition emit_source :: "string \<Rightarrow> fragment list \<Rightarrow> string" where
  "emit_source base priv = header_include base @ concat (map frag_line priv)"

definition header_path :: "string \<Rightarrow> string \<Rightarrow> string" where
  "header_path outDir base = path_join outDir (base @ ''.yapp.h'')"

definition source_path :: "string \<Rightarrow> string \<Rightarrow> string" where
  "source_path outDir base = path_join outDir (base @ ''.yapp.cpp'')"

definition write_files ::
  "(string \<Rightarrow> bool) \<Rightarrow> string \<Rightarrow> string \<Rightarrow> bool \<Rightarrow> string \<Rightarrow> fragment list \<Rightarrow> fragment list
   \<Rightarrow> effect list \<times> bool" where
  "write_files writable base outDir omitBanner banner pub priv =
     (if writable outDir
      then ([WriteFile (header_path outDir base) (emit_header omitBanner banner pub),
             WriteFile (source_path outDir base) (emit_source base priv)], True)
      else ([Err (''IoError: '' @ outDir @ [nl])], False))"

section \<open>Lemmas\<close>

text \<open>The lines of an emitted document: one per fragment.\<close>

lemma concat_frag_line: "concat (map frag_line fs) = unlines (map (\<lambda>f. frag_text f @ '';'') fs)"
  by (induction fs) (simp_all add: unlines_def frag_line_def)

lemma getlines_emit:
  "\<forall>f \<in> set fs. nl \<notin> set (frag_text f) \<Longrightarrow>
   getlines (concat (map frag_line fs)) = map (\<lambda>f. frag_text f @ '';'') fs"
  by (simp add: concat_frag_line getlines_unlines)

lemma map_frag_text_directives:
  "directive_texts fs = map frag_text (filter (\<lambda>f. \<exists>t. f = DirectiveFrag t) fs)"
  by (induction fs rule: directive_texts.induct) auto

lemma map_frag_text_decls:
  "decl_texts fs = map frag_text (filter (\<lambda>f. \<exists>t. f = DeclFrag t) fs)"
  by (induction fs rule: decl_texts.induct) auto

end
