(* ===== verification/Pipeline.thy ===== *)
theory Pipeline
  imports Normalize Cli Emit
begin

text \<open>
  \<^verbatim>\<open>main\<close> and \<^verbatim>\<open>prePreprocess\<close> of \<^verbatim>\<open>src/oldsrc/main.cpp\<close> as a
  sequence of stages. A run is a trace of effects (what is printed, written, removed or
  run in a shell) and an exit status. A stage returns the effects it had and either the
  status the process ends with (\<open>Inl\<close>: an early \<^verbatim>\<open>return\<close>, \<^verbatim>\<open>exit(1)\<close> or
  an uncaught exception) or the values the next stage needs (\<open>Inr\<close>); \<open>then_run\<close>
  sequences two stages. The outside world is a record of oracles: what the input file
  holds, which directories exist and can be created or written, what the external
  preprocessor and compiler do with a command, and what libclang parses.
\<close>

record env =
  read_file :: "string \<Rightarrow> string option"
  dir_exists :: "string \<Rightarrow> bool"
  mkdirs_ok :: "string \<Rightarrow> bool"
  can_write :: "string \<Rightarrow> bool"
  run_cpp :: "string \<Rightarrow> string \<Rightarrow> string option"
  parse_tu :: "string \<Rightarrow> decl list option"
  tu_diagnostics :: nat
  diagnostic :: "nat \<Rightarrow> string"
  run_cxx :: "string \<Rightarrow> bool"
  banner :: string

type_synonym 'a stage = "effect list \<times> (exit_status + 'a)"

definition then_run :: "'a stage \<Rightarrow> ('a \<Rightarrow> 'b stage) \<Rightarrow> 'b stage" where
  "then_run r f =
     (case r of
        (efs, Inl x) \<Rightarrow> (efs, Inl x)
      | (efs, Inr a) \<Rightarrow> (case f a of (efs', y) \<Rightarrow> (efs @ efs', y)))"

definition lift_opt :: "string \<Rightarrow> 'a option \<Rightarrow> 'a stage" where
  "lift_opt exn r = (case r of None \<Rightarrow> ([], Inl (Terminated exn)) | Some a \<Rightarrow> ([], Inr a))"

definition finish :: "unit stage \<Rightarrow> effect list \<times> exit_status" where
  "finish r = (case r of (efs, Inl x) \<Rightarrow> (efs, x) | (efs, Inr _) \<Rightarrow> (efs, ExitCode 0))"

section \<open>prePreprocess (lines 14--66)\<close>

text \<open>
  The input is read whole and split into lines as by \<^verbatim>\<open>std::getline\<close>; the table
  is the global \<^verbatim>\<open>preprocStored\<close> after the call, the output file name that of
  line 58. The result is the table, the file written and its contents.
\<close>

definition pre_preprocess ::
  "env \<Rightarrow> string list \<Rightarrow> string \<Rightarrow> string \<Rightarrow> (string list \<times> string \<times> string) stage" where
  "pre_preprocess e stored inputFile outDir =
     (case read_file e inputFile of
        None \<Rightarrow> ([Err (''Failed to open input file for pre-preprocessing: '' @ inputFile @ [nl])],
                 Inl (ExitCode 1))
      | Some src \<Rightarrow>
          (case pre_preprocess_text stored src of
             None \<Rightarrow> ([], Inl (Terminated ''std::out_of_range''))
           | Some st \<Rightarrow>
               (case pubpp_name inputFile outDir of
                  None \<Rightarrow> ([], Inl (Terminated ''std::out_of_range''))
                | Some outFile \<Rightarrow>
                    if can_write e outFile
                    then ([WriteFile outFile (pp_out st)], Inr (preprocStored st, outFile, pp_out st))
                    else ([Err (''Failed to write pre-preprocessed file: '' @ outFile @ [nl])],
                          Inl (ExitCode 1)))))"

section \<open>The stages of main\<close>

text \<open>
  Lines 183--223: the extension check, the preprocessor run (\<^verbatim>\<open>system\<close>, the
  shell redirecting its output into the \<^verbatim>\<open>.pyapp\<close> file, which the stage then
  reads back), and the line-marker cleaning written over that file. The result is the
  \<^verbatim>\<open>.pyapp\<close> name and the cleaned text.
\<close>

definition preprocess_stage ::
  "env \<Rightarrow> string list \<Rightarrow> string \<Rightarrow> string \<Rightarrow> (string \<times> string) stage" where
  "preprocess_stage e pargs pubppFile pubText =
     (case pyapp_name pubppFile of
        None \<Rightarrow> ([Err (''Input file must have .yapp extension.'' @ [nl])], Inl (ExitCode 1))
      | Some preprocOutputFile \<Rightarrow>
          (let cmd = preproc_command pargs pubppFile preprocOutputFile
           in case run_cpp e cmd pubText of
                None \<Rightarrow> ([Shell cmd, Err (''Preprocessing failed.'' @ [nl])], Inl (ExitCode 1))
              | Some expanded \<Rightarrow>
                  (let cleanedOutput = clean_text expanded
                   in if can_write e preprocOutputFile
                      then ([Shell cmd, WriteFile preprocOutputFile cleanedOutput],
                            Inr (preprocOutputFile, cleanedOutput))
                      else ([Shell cmd, Err (''Failed to write cleaned preprocessed file: ''
                                             @ preprocOutputFile @ [nl])], Inl (ExitCode 1)))))"

text \<open>
  Lines 225--248. \<^verbatim>\<open>clang_getNumDiagnostics\<close> returns 0 for a null translation unit,
  and the count is only asked of a null one.
\<close>

definition num_diagnostics :: "env \<Rightarrow> decl list option \<Rightarrow> nat" where
  "num_diagnostics e tu = (case tu of None \<Rightarrow> 0 | Some _ \<Rightarrow> tu_diagnostics e)"

definition parse_stage :: "env \<Rightarrow> string \<Rightarrow> decl list stage" where
  "parse_stage e text =
     (let tu = parse_tu e text
      in case tu of
           Some ds \<Rightarrow> ([], Inr ds)
         | None \<Rightarrow>
             (let numErrors = num_diagnostics e tu
              in if numErrors \<noteq> 0
                 then (map (\<lambda>i. Err (diagnostic e i @ [nl])) [0..<numErrors], Inl (ExitCode 2))
                 else ([Err (''Failed to parse input file.'' @ [nl])], Inl (ExitCode 1))))"

text \<open>
  Lines 250--253: the visitor over the top-level declarations, then \<^verbatim>\<open>writeFiles\<close>;
  a structural error aborts the run (\<S>7).
\<close>

definition emit_stage ::
  "env \<Rightarrow> string list \<Rightarrow> decl list \<Rightarrow> string \<Rightarrow> string \<Rightarrow> unit stage" where
  "emit_stage e tbl ds filename outDir =
     (case partition_decls tbl ds of
        Inl _ \<Rightarrow> ([Err (''StructuralError'' @ [nl])], Inl (ExitCode 1))
      | Inr (pub, priv) \<Rightarrow>
          (case write_files (can_write e) filename outDir False (banner e) pub priv of
             (efs, True) \<Rightarrow> (efs, Inr ())
           | (efs, False) \<Rightarrow> (efs, Inl (ExitCode 1))))"

text \<open>Lines 256--266.\<close>

definition compile_stage :: "env \<Rightarrow> opts \<Rightarrow> string list \<Rightarrow> string \<Rightarrow> string \<Rightarrow> unit stage" where
  "compile_stage e opt cargs outDir filename =
     (if compileGenerated opt
      then (let cmd = compile_command cargs outDir filename
            in if run_cxx e cmd then ([Shell cmd], Inr ())
               else ([Shell cmd, Err (''Compilation failed.'' @ [nl])], Inl (ExitCode 1)))
      else ([], Inr ()))"

text \<open>
  Line 155: \<^verbatim>\<open>std::filesystem::exists\<close> sees the directories of the file system and
  those an earlier \<^verbatim>\<open>-o\<close> of the same run created.
\<close>

definition dir_seen :: "env \<Rightarrow> effect list \<Rightarrow> string \<Rightarrow> bool" where
  "dir_seen e efs d = (dir_exists e d \<or> MkDirs d \<in> set efs)"

section \<open>main (lines 86--282)\<close>

definition short_usage :: string where
  "short_usage =
     ''Usage: ./yappc <source.yapp> [OPTIONS] -- [Preprocessor Args] -- [Compiler Args]'' @ [nl]"

definition run_input :: "env \<Rightarrow> arg_split \<Rightarrow> opts \<Rightarrow> string \<Rightarrow> unit stage" where
  "run_input e sp opt input =
     then_run (lift_opt ''std::out_of_range'' (base_names input)) (\<lambda>(filename, dir).
       (let outDir = effective_outdir (outputDir opt) dir
        in then_run (pre_preprocess e [] input outDir) (\<lambda>(tbl, pubppFile, pubText).
           then_run (preprocess_stage e (preprocArgs sp) pubppFile pubText) (\<lambda>(pyapp, cleanedOutput).
           then_run (parse_stage e cleanedOutput) (\<lambda>ds.
           then_run (emit_stage e tbl ds filename outDir) (\<lambda>_.
           then_run (compile_stage e opt (compileArgs sp) outDir filename) (\<lambda>_.
             (cleanup_effects opt outDir filename pyapp pubppFile, Inr ()))))))))"

definition yappc_main :: "env \<Rightarrow> string list \<Rightarrow> effect list \<times> exit_status" where
  "yappc_main e argv =
     (if length argv < 2 then ([Err short_usage], ExitCode 1)
      else
        (let sp = split_args (drop 2 argv)
         in finish (then_run (parse_opts (dir_seen e) (\<lambda>_. mkdirs_ok e) [] opts_init (myArgs sp))
                      (\<lambda>opt. run_input e sp opt (argv ! 1)))))"

section \<open>The file store\<close>

text \<open>
  What a trace does to the files: a write replaces a file's contents, a removal deletes it.
  The shell commands write only the preprocessor's output, which the next effect of the
  trace overwrites.
\<close>

fun apply_effect :: "(string \<rightharpoonup> string) \<Rightarrow> effect \<Rightarrow> (string \<rightharpoonup> string)" where
  "apply_effect fs (WriteFile p t) = fs(p \<mapsto> t)"
| "apply_effect fs (Remove p) = fs(p := None)"
| "apply_effect fs _ = fs"

definition apply_effects :: "(string \<rightharpoonup> string) \<Rightarrow> effect list \<Rightarrow> (string \<rightharpoonup> string)" where
  "apply_effects fs efs = foldl apply_effect fs efs"

section \<open>Lemmas: sequencing\<close>

lemma then_run_Inl [simp]: "then_run (efs, Inl x) f = (efs, Inl x)"
  by (simp add: then_run_def)

lemma then_run_Inr [simp]: "then_run (efs, Inr a) f = (case f a of (efs', y) \<Rightarrow> (efs @ efs', y))"
  by (simp add: then_run_def)

lemma then_run_assoc:
  "then_run (then_run r f) g = then_run r (\<lambda>a. then_run (f a) g)"
  by (cases r) (auto simp: then_run_def split: sum.splits prod.splits)

lemma lift_opt_Some [simp]: "lift_opt exn (Some a) = ([], Inr a)"
  by (simp add: lift_opt_def)

lemma lift_opt_None [simp]: "lift_opt exn None = ([], Inl (Terminated exn))"
  by (simp add: lift_opt_def)

section \<open>Lemmas: the stages\<close>

lemma then_run_avoid:
  "snd r \<noteq> Inl x \<Longrightarrow> (\<And>a. snd (f a) \<noteq> Inl x) \<Longrightarrow> snd (then_run r f) \<noteq> Inl x"
  by (cases r) (auto simp: then_run_def split: sum.splits prod.splits, metis snd_conv)

lemma parse_opts_not2: "snd (parse_opts ex mk efs opt args) \<noteq> Inl (ExitCode 2)"
  by (induction ex mk efs opt args rule: parse_opts.induct) (auto simp: Let_def split: list.splits)

lemma stages_not2:
  "snd (lift_opt exn r) \<noteq> Inl (ExitCode 2)"
  "snd (pre_preprocess e stored input outDir) \<noteq> Inl (ExitCode 2)"
  "snd (preprocess_stage e args pubppFile pubText) \<noteq> Inl (ExitCode 2)"
  "snd (parse_stage e text) \<noteq> Inl (ExitCode 2)"
  "snd (emit_stage e tbl ds filename outDir) \<noteq> Inl (ExitCode 2)"
  "snd (compile_stage e opt cargs outDir filename) \<noteq> Inl (ExitCode 2)"
  by (auto simp: lift_opt_def pre_preprocess_def preprocess_stage_def parse_stage_def
      num_diagnostics_def emit_stage_def write_files_def compile_stage_def Let_def
      split: option.splits sum.splits prod.splits)

lemma run_input_not2: "snd (run_input e sp opt input) \<noteq> Inl (ExitCode 2)"
  unfolding run_input_def Let_def prod.case_eq_if
  by (intro then_run_avoid stages_not2) simp

lemma finish_avoid: "snd r \<noteq> Inl x \<Longrightarrow> x \<noteq> ExitCode 0 \<Longrightarrow> snd (finish r) \<noteq> x"
  by (cases r) (auto simp: finish_def split: sum.splits)

lemma myArgs_foldl_prefix: "\<exists>ys. myArgs (foldl split_step st xs) = myArgs st @ ys"
proof (induction xs arbitrary: st)
  case Nil
  then show ?case by simp
next
  case (Cons x xs)
  obtain ys where "myArgs (foldl split_step (split_step st x) xs) = myArgs (split_step st x) @ ys"
    using Cons.IH by blast
  moreover have "\<exists>zs. myArgs (split_step st x) = myArgs st @ zs"
    by (simp add: split_step_def split: if_split)
  then obtain zs where "myArgs (split_step st x) = myArgs st @ zs" ..
  ultimately show ?case by auto
qed

lemma pipeline_markers:
  assumes nostray: "list_all (\<lambda>l. directive_text l = None \<longrightarrow> parse_marker l = None) (getlines src)"
    and len: "length (getlines src) < 2 ^ 64"
    and keep: "marker_ords (getlines expanded) = marker_ords (getlines (unlines (spec_lines 0 (getlines src))))"
    and faithful: "decl_markers ds = marker_ords (getlines (clean_text expanded))"
  shows "decl_markers ds = [0..<length (directive_table (getlines src))]"
proof -
  have "decl_markers ds = marker_ords (getlines expanded)"
    using faithful by (simp add: getlines_clean_text marker_ords_map_cleaned)
  also have "\<dots> = marker_ords (spec_lines 0 (getlines src))"
    using keep by (simp add: getlines_pp_out)
  also have "\<dots> = [0..<length (directive_table (getlines src))]"
    using marker_ords_spec_lines [OF nostray, of 0] len by simp
  finally show ?thesis .
qed

lemma run_input_prefix:
  assumes rd: "read_file e input = Some src"
    and bn: "base_names input = Some (filename, dir)"
    and od: "outDir = effective_outdir (outputDir opt) dir"
    and pp: "pubpp_name input outDir = Some pubppFile"
    and py: "pyapp_name pubppFile = Some pyapp"
    and wr: "\<forall>p. can_write e p"
    and cpp: "run_cpp e (preproc_command (preprocArgs sp) pubppFile pyapp)
                (unlines (spec_lines 0 (getlines src))) = Some expanded"
    and prs: "parse_tu e (clean_text expanded) = Some ds"
  shows "run_input e sp opt input =
      then_run ([WriteFile pubppFile (unlines (spec_lines 0 (getlines src))),
        Shell (preproc_command (preprocArgs sp) pubppFile pyapp), WriteFile pyapp (clean_text expanded)],
        Inr ())
      (\<lambda>_. then_run (emit_stage e (directive_table (getlines src)) ds filename outDir)
      (\<lambda>_. then_run (compile_stage e opt (compileArgs sp) outDir filename)
      (\<lambda>_. (cleanup_effects opt outDir filename pyapp pubppFile, Inr ()))))"
proof -
  have s1: "pre_preprocess e [] input outDir =
      ([WriteFile pubppFile (unlines (spec_lines 0 (getlines src)))],
       Inr (directive_table (getlines src), pubppFile, unlines (spec_lines 0 (getlines src))))"
    using rd pp wr by (simp add: pre_preprocess_def pre_preprocess_text_eq)
  have s2: "preprocess_stage e (preprocArgs sp) pubppFile (unlines (spec_lines 0 (getlines src))) =
      ([Shell (preproc_command (preprocArgs sp) pubppFile pyapp), WriteFile pyapp (clean_text expanded)],
       Inr (pyapp, clean_text expanded))"
    using py cpp wr by (simp add: preprocess_stage_def Let_def)
  have s3: "parse_stage e (clean_text expanded) = ([], Inr ds)"
    using prs by (simp add: parse_stage_def)
  show ?thesis
    using bn s1 s2 s3 by (simp add: run_input_def od [symmetric] split: prod.split)
qed

lemma run_input_written:
  assumes rd: "read_file e input = Some src"
    and bn: "base_names input = Some (filename, dir)"
    and od: "outDir = effective_outdir (outputDir opt) dir"
    and pp: "pubpp_name input outDir = Some pubppFile"
    and py: "pyapp_name pubppFile = Some pyapp"
    and wr: "\<forall>p. can_write e p"
    and cpp: "run_cpp e (preproc_command (preprocArgs sp) pubppFile pyapp)
                (unlines (spec_lines 0 (getlines src))) = Some expanded"
    and prs: "parse_tu e (clean_text expanded) = Some ds"
    and part: "partition_decls (directive_table (getlines src)) ds = Inr (pub, priv)"
  shows "run_input e sp opt input =
      ([WriteFile pubppFile (unlines (spec_lines 0 (getlines src))),
        Shell (preproc_command (preprocArgs sp) pubppFile pyapp), WriteFile pyapp (clean_text expanded),
        WriteFile (header_path outDir filename) (emit_header False (banner e) pub),
        WriteFile (source_path outDir filename) (emit_source filename priv)]
       @ fst (compile_stage e opt (compileArgs sp) outDir filename)
       @ (case snd (compile_stage e opt (compileArgs sp) outDir filename) of
            Inl _ \<Rightarrow> [] | Inr _ \<Rightarrow> cleanup_effects opt outDir filename pyapp pubppFile),
       case snd (compile_stage e opt (compileArgs sp) outDir filename) of
         Inl x \<Rightarrow> Inl x | Inr _ \<Rightarrow> Inr ())"
proof -
  have s4: "emit_stage e (directive_table (getlines src)) ds filename outDir =
      ([WriteFile (header_path outDir filename) (emit_header False (banner e) pub),
        WriteFile (source_path outDir filename) (emit_source filename priv)], Inr ())"
    using part wr by (simp add: emit_stage_def write_files_def)
  show ?thesis
    using run_input_prefix [OF rd bn od pp py wr cpp prs] s4
    by (cases "compile_stage e opt (compileArgs sp) outDir filename") (simp split: sum.split)
qed

lemma run_input_ok:
  assumes rd: "read_file e input = Some src"
    and bn: "base_names input = Some (filename, dir)"
    and od: "outDir = effective_outdir (outputDir opt) dir"
    and pp: "pubpp_name input outDir = Some pubppFile"
    and py: "pyapp_name pubppFile = Some pyapp"
    and wr: "\<forall>p. can_write e p"
    and cpp: "run_cpp e (preproc_command (preprocArgs sp) pubppFile pyapp)
                (unlines (spec_lines 0 (getlines src))) = Some expanded"
    and prs: "parse_tu e (clean_text expanded) = Some ds"
    and part: "partition_decls (directive_table (getlines src)) ds = Inr (pub, priv)"
    and cc: "compile_stage e opt (compileArgs sp) outDir filename = (cefs, Inr ())"
  shows "run_input e sp opt input =
      ([WriteFile pubppFile (unlines (spec_lines 0 (getlines src))),
        Shell (preproc_command (preprocArgs sp) pubppFile pyapp), WriteFile pyapp (clean_text expanded),
        WriteFile (header_path outDir filename) (emit_header False (banner e) pub),
        WriteFile (source_path outDir filename) (emit_source filename priv)]
       @ cefs @ cleanup_effects opt outDir filename pyapp pubppFile, Inr ())"
  using run_input_written [OF rd bn od pp py wr cpp prs part] cc by simp

lemma partition_faithful:
  assumes nostray: "list_all (\<lambda>l. directive_text l = None \<longrightarrow> parse_marker l = None) (getlines src)"
    and len: "length (getlines src) < 2 ^ 64"
    and keep: "marker_ords (getlines expanded) = marker_ords (getlines (unlines (spec_lines 0 (getlines src))))"
    and faithful: "decl_markers ds = marker_ords (getlines (clean_text expanded))"
  obtains pub priv where "partition_decls (directive_table (getlines src)) ds = Inr (pub, priv)"
proof -
  have "decl_markers ds = [0..<length (directive_table (getlines src))]"
    using nostray len keep faithful by (rule pipeline_markers)
  then show ?thesis
    using partition_decls_ok_iff that by (metis surj_pair)
qed

text \<open>
  The pipeline composed: when the preprocessor keeps the markers and the parser reports
  them, the partition succeeds, and the run writes the documents the partitioner built.
\<close>

lemma run_input_faithful:
  assumes rd: "read_file e input = Some src"
    and nostray: "list_all (\<lambda>l. directive_text l = None \<longrightarrow> parse_marker l = None) (getlines src)"
    and len: "length (getlines src) < 2 ^ 64"
    and bn: "base_names input = Some (filename, dir)"
    and od: "outDir = effective_outdir (outputDir opt) dir"
    and pp: "pubpp_name input outDir = Some pubppFile"
    and py: "pyapp_name pubppFile = Some pyapp"
    and wr: "\<forall>p. can_write e p"
    and cpp: "run_cpp e (preproc_command (preprocArgs sp) pubppFile pyapp)
                (unlines (spec_lines 0 (getlines src))) = Some expanded"
    and keep: "marker_ords (getlines expanded) = marker_ords (getlines (unlines (spec_lines 0 (getlines src))))"
    and prs: "parse_tu e (clean_text expanded) = Some ds"
    and faithful: "decl_markers ds = marker_ords (getlines (clean_text expanded))"
    and cc: "compile_stage e opt (compileArgs sp) outDir filename = (cefs, Inr ())"
  shows "\<exists>pub priv.
      run_input e sp opt input =
      ([WriteFile pubppFile (unlines (spec_lines 0 (getlines src))),
        Shell (preproc_command (preprocArgs sp) pubppFile pyapp), WriteFile pyapp (clean_text expanded),
        WriteFile (header_path outDir filename) (emit_header False (banner e) pub),
        WriteFile (source_path outDir filename) (emit_source filename priv)]
       @ cefs @ cleanup_effects opt outDir filename pyapp pubppFile, Inr ()) \<and>
      directive_texts pub = map reconstruct (directive_table (getlines src)) \<and>
      decl_texts pub = plain_texts (\<lambda>v. v = Public) ds \<and>
      decl_texts priv = plain_texts (\<lambda>v. v \<noteq> Public) ds \<and> directive_texts priv = []"
proof -
  obtain pub priv where part: "partition_decls (directive_table (getlines src)) ds = Inr (pub, priv)"
    using nostray len keep faithful by (rule partition_faithful)
  show ?thesis
    using run_input_ok [OF rd bn od pp py wr cpp prs part cc] partition_decls_docs [OF part] by blast
qed

lemma main_no_options:
  "yappc_main e [prog, input] = finish (run_input e split_init opts_init input)"
  by (simp add: yappc_main_def split_args_def opts_init_def split_init_def)

lemma no_options_tail:
  "compile_stage e opts_init [] outDir filename = ([], Inr ())"
  "cleanup_effects opts_init outDir filename pyapp pubppFile = [Remove pyapp, Remove pubppFile]"
  "effective_outdir (outputDir opts_init) dir = dir"
  by (simp_all add: compile_stage_def cleanup_effects_def opts_init_def effective_outdir_def)

lemma main_one_option:
  "flag \<noteq> ''--'' \<Longrightarrow> flag \<noteq> ''-h'' \<Longrightarrow> flag \<noteq> ''-o'' \<Longrightarrow>
   yappc_main e [prog, input, flag] =
     finish (run_input e (split_init\<lparr>myArgs := [flag]\<rparr>)
       (opts_init\<lparr>debugMode := flag = ''-g'', sourceToggle := flag = ''-s'',
                  removeHeader := flag = ''-r'', compileGenerated := flag = ''-c''\<rparr>) input)"
  by (simp add: yappc_main_def split_args_def split_step_def split_init_def opts_init_def Let_def)

lemma path_join_suffix: "b \<noteq> [] \<Longrightarrow> \<exists>p. path_join a b = p @ b"
  by (auto simp: path_join_def)

lemma suffix_neq: "length s = length t \<Longrightarrow> s \<noteq> t \<Longrightarrow> xs @ s \<noteq> ys @ t"
proof
  assume l: "length s = length t" and n: "s \<noteq> t" and e: "xs @ s = ys @ t"
  then have "rev s @ rev xs = rev t @ rev ys" by (metis rev_append)
  then have "take (length s) (rev s @ rev xs) = take (length t) (rev t @ rev ys)" by (simp add: l)
  then show False using n by simp
qed

lemma pyapp_name_suffix: "pyapp_name x = Some y \<Longrightarrow> \<exists>p. y = p @ ''.pyapp''"
  by (auto simp: pyapp_name_def split: if_splits)

lemma pubpp_name_suffix: "pubpp_name x d = Some y \<Longrightarrow> \<exists>p. y = p @ ''.pubpp''"
proof -
  assume "pubpp_name x d = Some y"
  then obtain z where y: "y = path_join d (z @ ''.pubpp'')" by (auto simp: pubpp_name_def)
  obtain p where "path_join d (z @ ''.pubpp'') = p @ z @ ''.pubpp''"
    using path_join_suffix [of "z @ ''.pubpp''" d] by auto
  with y show ?thesis by (metis append.assoc)
qed

lemma output_paths_distinct:
  "pyapp_name x = Some y \<Longrightarrow> y \<noteq> source_path d f \<and> y \<noteq> header_path d f"
  "pubpp_name x d' = Some z \<Longrightarrow> z \<noteq> source_path d f \<and> z \<noteq> header_path d f"
  "header_path d f \<noteq> source_path d f"
proof -
  obtain ps where ps: "source_path d f = ps @ ''.cpp''"
    using path_join_suffix [of "f @ ''.yapp.cpp''" d] by (auto simp: source_path_def)
  obtain ph where ph: "header_path d f = ph @ ''pp.h''"
    using path_join_suffix [of "f @ ''.yapp.h''" d] by (auto simp: header_path_def)
  show "header_path d f \<noteq> source_path d f" using ps ph suffix_neq [of "''pp.h''" "''.cpp''"] by simp
  show "pyapp_name x = Some y \<Longrightarrow> y \<noteq> source_path d f \<and> y \<noteq> header_path d f"
  proof -
    assume "pyapp_name x = Some y"
    then obtain p where "y = (p @ ''.p'') @ ''yapp''" using pyapp_name_suffix by fastforce
    then show ?thesis using ps ph suffix_neq [of "''yapp''" "''.cpp''"] suffix_neq [of "''yapp''" "''pp.h''"]
      by simp
  qed
  show "pubpp_name x d' = Some z \<Longrightarrow> z \<noteq> source_path d f \<and> z \<noteq> header_path d f"
  proof -
    assume "pubpp_name x d' = Some z"
    then obtain p where "z = (p @ ''.p'') @ ''ubpp''" using pubpp_name_suffix by fastforce
    then show ?thesis using ps ph suffix_neq [of "''ubpp''" "''.cpp''"] suffix_neq [of "''ubpp''" "''pp.h''"]
      by simp
  qed
qed

end
