(* ===== verification/Spec2Isabelle.thy ===== *)
theory Spec2Isabelle
  imports Pipeline
begin

text \<open>
  A verification library for \<^verbatim>\<open>yappc\<close> (\<^verbatim>\<open>src/oldsrc/main.cpp\<close>), a
  source-to-source translator that splits an annotated C++ file \<^verbatim>\<open>name.yapp\<close>
  into a public header \<^verbatim>\<open>name.yapp.h\<close> and a private implementation
  \<^verbatim>\<open>name.yapp.cpp\<close>.

  \<^bold>\<open>The program.\<close> \<^verbatim>\<open>main\<close> parses its command line, runs the
  DirectiveExtractor \<^verbatim>\<open>prePreprocess\<close> (directive lines \<^verbatim>\<open>#pub\<close> and
  \<^verbatim>\<open>#import\<close> become marker declarations, their text is kept in the global
  vector \<^verbatim>\<open>preprocStored\<close>; the result is written to \<^verbatim>\<open>name.yapp.pubpp\<close>),
  checks the extension, runs \<^verbatim>\<open>clang -E\<close> (the MacroExpander) into
  \<^verbatim>\<open>name.yapp.pyapp\<close>, strips line markers from it (the AnnotationNormalizer),
  parses the result with libclang (the SyntaxTreeBuilder), walks the top-level
  declarations with \<^verbatim>\<open>visitor\<close> (the DeclarationPartitioner, in
  \<^verbatim>\<open>visitor.h\<close>) and writes the two files with \<^verbatim>\<open>writeFiles\<close> (the
  FileEmitter, in \<^verbatim>\<open>file_writer.h\<close>); it may then compile the result, and it
  removes the intermediate files. The stages share the directive table and the files.

  \<^bold>\<open>Theories.\<close>
  \<^item> \<open>Prelude\<close>: \<open>size_t\<close> as \<open>64 word\<close> with \<open>npos\<close>; the
    \<^verbatim>\<open>std::string\<close> operations the code calls (\<open>str_at\<close>, \<open>str_substr\<close>,
    \<open>str_find\<close>, \<open>str_find_last_of\<close>), with \<open>None\<close> where the library throws or
    the behaviour is undefined; \<^verbatim>\<open>std::getline\<close> as \<open>getlines\<close> with its inverse
    \<open>unlines\<close> (round trip \<open>getlines_unlines\<close>); \<^verbatim>\<open>path::operator/\<close> as
    \<open>path_join\<close>; the effects a run can have (\<open>effect\<close>) and its exit status.
  \<^item> \<open>Directives\<close>: the text transformation of \<^verbatim>\<open>prePreprocess\<close> (lines
    14--56). The two regular expressions are \<open>rx_directive\<close>, proved equal to their
    declarative reading; the \<^verbatim>\<open>#import\<close> rewrite is \<open>import_path\<close> (with
    \<open>encl\<close> for the short-circuit enclosure tests and \<open>rename_yapp\<close> for lines
    40--42); the state is the record \<open>pp_state\<close>, one loop iteration \<open>pre_line\<close>,
    the loop \<open>pre_lines\<close>. The contract of \<S>4.1 of the specification is
    \<open>directive_table\<close> and \<open>spec_lines\<close>; \<open>pre_lines_refines\<close> shows the loop
    implements it, and the marker round trip goes through \<open>parse_marker\<close>, the
    inverse of \<open>marker_text\<close>.
  \<^item> \<open>Normalize\<close>: the line-marker cleaning of lines 202--223 (\<open>clean_line\<close>,
    \<open>clean_text\<close>) against its contract \<open>cleaned\<close>: line count kept, no line
    starting with \<^verbatim>\<open>#\<close>, markers kept.
  \<^item> \<open>Cli\<close>: the argument sections (\<open>split_args\<close>, lines 109--122), the option
    loop \<open>parse_opts\<close> (lines 129--169) with its exits and directory creation, the
    derived names (\<open>base_names\<close>, \<open>pubpp_name\<close>, \<open>pyapp_name\<close>) with
    their \<open>size_t\<close> wrap-around, the shell commands and the cleanup.
  \<^item> \<open>Partition\<close> and \<open>Emit\<close>: the DeclarationPartitioner and the FileEmitter,
    modelled from \<S>4.3, \<S>4.4 and \<S>7 of the specification because their code is not in
    the repository. \<open>partition_decls\<close> succeeds exactly when the markers reported are
    \<open>0, \<dots>, N-1\<close> in order (\<open>partition_decls_ok_iff\<close>) and then routes every
    declaration and directive to its document (\<open>partition_decls_docs\<close>).
  \<^item> \<open>Pipeline\<close>: \<^verbatim>\<open>prePreprocess\<close> with its file effects
    (\<open>pre_preprocess\<close>) and \<^verbatim>\<open>main\<close> (\<open>yappc_main\<close>) as a sequence of stages
    joined by \<open>then_run\<close>; each stage returns its effects and either the status the
    process ends with or the values the next stage needs. The outside world is the record
    \<open>env\<close> of oracles: the input's contents, which directories exist or can be
    created or written, what the preprocessor, the parser and the compiler do. The files a
    trace leaves are \<open>apply_effects\<close>. \<open>run_input_faithful\<close> composes the stages.
  \<^item> this theory: a harness for the scenario of \<S>8 (a preprocessor that prepends a
    line marker, a parser with one declaration per line) and the properties of the whole
    program: end-to-end correctness (C1), structural errors (C4), the exit statuses
    (C10, C12, C30, C31), the options \<^verbatim>\<open>-r\<close> (C11), \<^verbatim>\<open>-h\<close> (C20) and
    \<^verbatim>\<open>-g\<close> (C29). The harness is used only by the witnesses.

  \<^bold>\<open>Bounds.\<close> Strings are lists of bytes; a hypothesis \<open>fits s\<close>
  (\<open>length s < 2^64\<close>) is used only where a \<open>size_t\<close> index of the string must not
  wrap. Marker ordinals are printed from a \<open>size_t\<close>; they are the line's position in
  the table as long as fewer than \<open>2^64\<close> lines are read. No loop needs fuel: every
  loop of the program runs over a finite list (lines, arguments, declarations).

  \<^bold>\<open>Not modelled.\<close> The external tools and libclang are parameters, not
  models: the end-to-end theorems assume only that the preprocessor keeps the marker lines
  and that the parser reports them. Reading the \<^verbatim>\<open>.pyapp\<close> file back (line 203)
  is taken to succeed, the shell having just created it; when the preprocessor fails, the
  file its redirect created is not part of the trace. A directory counts as existing when
  the file system has it or an earlier \<^verbatim>\<open>-o\<close> of the run created it
  (\<open>dir_seen\<close>). Text is bytes, with no encoding.
\<close>

section \<open>A test harness for the end-to-end scenario\<close>

text \<open>
  The scenario of \<S>8 of the specification: an input with a \<^verbatim>\<open>#pub\<close> include, a
  public and a private declaration. The preprocessor of the harness prepends a line marker
  as \<^verbatim>\<open>clang -E\<close> does; its parser reads one declaration per line, as libclang
  reports a top-level declaration with its annotation.
\<close>

definition scenario_src :: string where
  "scenario_src = unlines [''#pub include <vector>'', ''pub void f();'', ''priv int g() { return 1; }'']"

definition toy_cpp :: "string \<Rightarrow> string \<Rightarrow> string option" where
  "toy_cpp cmd text = Some ((''# 1 '' @ dq # ''main.yapp.pubpp'' @ [dq]) @ nl # text)"

definition strip_semi :: "string \<Rightarrow> string" where
  "strip_semi s = (if s \<noteq> [] \<and> last s = CHR '';'' then butlast s else s)"

definition toy_decl :: "string \<Rightarrow> decl list" where
  "toy_decl l =
     (case parse_marker l of
        Some k \<Rightarrow> [\<lparr>sourceText = l, visibility = Public, marker = Some k\<rparr>]
      | None \<Rightarrow>
          if take 4 l = ''pub '' then [\<lparr>sourceText = strip_semi (drop 4 l), visibility = Public, marker = None\<rparr>]
          else if take 5 l = ''priv '' then
            [\<lparr>sourceText = strip_semi (drop 5 l), visibility = Private, marker = None\<rparr>]
          else [])"

definition toy_parse :: "string \<Rightarrow> decl list option" where
  "toy_parse text = Some (concat (map toy_decl (getlines text)))"

definition scenario_env :: env where
  "scenario_env =
     \<lparr>read_file = (\<lambda>f. if f = ''main.yapp'' \<or> f = ''notes.txt'' then Some scenario_src else None),
      dir_exists = (\<lambda>_. True), mkdirs_ok = (\<lambda>_. True), can_write = (\<lambda>_. True),
      run_cpp = toy_cpp, parse_tu = toy_parse, tu_diagnostics = 0, diagnostic = (\<lambda>_. []),
      run_cxx = (\<lambda>_. True), banner = ''// generated by yappc'' @ [nl]\<rparr>"

abbreviation scenario_marker :: string where
  "scenario_marker \<equiv>
     ''pub __attribute__((annotate('' @ dq # ''__pub_preproc__'' @ dq # ''))) void __pub_preproc__0();''"

abbreviation scenario_pp :: string where
  "scenario_pp \<equiv> unlines [scenario_marker, ''pub void f();'', ''priv int g() { return 1; }'']"

abbreviation scenario_expanded :: string where
  "scenario_expanded \<equiv> unlines [''# 1 '' @ dq # ''main.yapp.pubpp'' @ [dq], scenario_marker,
     ''pub void f();'', ''priv int g() { return 1; }'']"

abbreviation scenario_cleaned :: string where
  "scenario_cleaned \<equiv> unlines ['''', scenario_marker, ''pub void f();'', ''priv int g() { return 1; }'']"

abbreviation scenario_decls :: "decl list" where
  "scenario_decls \<equiv>
     [\<lparr>sourceText = scenario_marker, visibility = Public, marker = Some 0\<rparr>,
      \<lparr>sourceText = ''void f()'', visibility = Public, marker = None\<rparr>,
      \<lparr>sourceText = ''int g() { return 1; }'', visibility = Private, marker = None\<rparr>]"

section \<open>The scenario, computed\<close>

lemma scenario_lines:
  "getlines scenario_src = [''#pub include <vector>'', ''pub void f();'', ''priv int g() { return 1; }'']"
  unfolding scenario_src_def by (rule getlines_unlines) simp

lemma scenario_table: "directive_table (getlines scenario_src) = [''include <vector>'']"
  by (simp add: scenario_lines directive_text_def rx_directive_def is_space_def is_line_term_def)

lemma scenario_spec_lines:
  "spec_lines 0 (getlines scenario_src) = [marker_text 0, ''pub void f();'', ''priv int g() { return 1; }'']"
  by (simp add: scenario_lines directive_text_def rx_directive_def is_space_def is_line_term_def)

lemma scenario_nostray:
  "list_all (\<lambda>l. directive_text l = None \<longrightarrow> parse_marker l = None) (getlines scenario_src)"
  by (simp add: scenario_lines parse_marker_def marker_prefix_def)

lemma scenario_base: "base_names ''main.yapp'' = Some (''main'', ''./'')"
  by (simp add: base_names_def str_find_last_of_def str_substr_def)

lemma scenario_pubpp: "pubpp_name ''main.yapp'' ''./'' = Some ''./main.yapp.pubpp''"
  by (simp add: pubpp_name_def str_substr_def str_find_last_of_def path_join_def)

lemma scenario_pyapp: "pyapp_name ''./main.yapp.pubpp'' = Some ''./main.yapp.pyapp''"
  by (simp add: pyapp_name_def str_find_def str_size_def npos_def)

lemma scenario_marker_text: "marker_text 0 = scenario_marker"
  by (simp add: marker_text_def marker_prefix_def show_dec.simps digit_char_def)

lemma scenario_pp_out: "unlines (spec_lines 0 (getlines scenario_src)) = scenario_pp"
  by (simp add: scenario_spec_lines scenario_marker_text)

lemma scenario_pp_lines:
  "getlines scenario_pp = [scenario_marker, ''pub void f();'', ''priv int g() { return 1; }'']"
  by (rule getlines_unlines) simp

lemma scenario_expanded_lines:
  "getlines scenario_expanded = [''# 1 '' @ dq # ''main.yapp.pubpp'' @ [dq], scenario_marker,
     ''pub void f();'', ''priv int g() { return 1; }'']"
  by (rule getlines_unlines) simp

lemma scenario_cleaned_lines:
  "getlines scenario_cleaned = ['''', scenario_marker, ''pub void f();'', ''priv int g() { return 1; }'']"
  by (rule getlines_unlines) simp

lemma scenario_clean: "clean_text scenario_expanded = scenario_cleaned"
  by (simp only: clean_text_unlines scenario_expanded_lines) (simp add: cleaned_def)

lemma scenario_parse: "toy_parse scenario_cleaned = Some scenario_decls"
  by (simp only: toy_parse_def scenario_cleaned_lines)
    (simp add: toy_decl_def parse_marker_def marker_prefix_def is_digit_def read_dec_def strip_semi_def)

lemma scenario_read: "read_file scenario_env ''main.yapp'' = Some scenario_src"
  by (simp add: scenario_env_def)

lemma scenario_len: "length (getlines scenario_src) < 2 ^ 64"
  by (simp add: scenario_lines)

lemma scenario_writable: "\<forall>p. can_write scenario_env p"
  by (simp add: scenario_env_def)

lemma scenario_run_cpp:
  "run_cpp scenario_env (preproc_command [] ''./main.yapp.pubpp'' ''./main.yapp.pyapp'')
     (unlines (spec_lines 0 (getlines scenario_src))) = Some scenario_expanded"
  by (simp add: scenario_env_def scenario_pp_out toy_cpp_def)

lemma scenario_keep:
  "marker_ords (getlines scenario_expanded) =
     marker_ords (getlines (unlines (spec_lines 0 (getlines scenario_src))))"
  by (simp only: scenario_pp_out scenario_pp_lines scenario_expanded_lines)
    (simp add: parse_marker_def marker_prefix_def is_digit_def read_dec_def)

lemma scenario_parse_tu: "parse_tu scenario_env (clean_text scenario_expanded) = Some scenario_decls"
proof -
  have "parse_tu scenario_env = toy_parse" by (simp add: scenario_env_def)
  then show ?thesis by (simp only: scenario_clean scenario_parse)
qed

lemma scenario_faithful:
  "decl_markers scenario_decls = marker_ords (getlines (clean_text scenario_expanded))"
  by (simp only: scenario_clean scenario_cleaned_lines)
    (simp add: parse_marker_def marker_prefix_def is_digit_def read_dec_def)

lemmas scenario_run = scenario_read scenario_nostray scenario_len scenario_base scenario_pubpp
  scenario_pyapp scenario_writable scenario_run_cpp scenario_keep scenario_parse_tu scenario_faithful

section \<open>Properties of the whole program\<close>

text \<open>
  C1: end-to-end correctness of a run without options. When the input can be read, no
  ordinary line of it already reads as a marker, the file names are well formed, every
  file can be written, the preprocessor succeeds and keeps the marker declarations, and
  the parser reports the markers it reads, \<^verbatim>\<open>main\<close> exits with 0 after writing the
  intermediate files, the header and the implementation, and removing the intermediates.
  The header holds the reconstructed directives in order and the public declarations in
  order; the implementation holds the other declarations and no directive.
\<close>

theorem main_end_to_end:
  assumes rd: "read_file e input = Some src"
    and nostray: "list_all (\<lambda>l. directive_text l = None \<longrightarrow> parse_marker l = None) (getlines src)"
    and len: "length (getlines src) < 2 ^ 64"
    and bn: "base_names input = Some (filename, dir)"
    and pp: "pubpp_name input dir = Some pubppFile"
    and py: "pyapp_name pubppFile = Some pyapp"
    and wr: "\<forall>p. can_write e p"
    and cpp: "run_cpp e (preproc_command [] pubppFile pyapp) (unlines (spec_lines 0 (getlines src)))
                = Some expanded"
    and keep: "marker_ords (getlines expanded) = marker_ords (getlines (unlines (spec_lines 0 (getlines src))))"
    and prs: "parse_tu e (clean_text expanded) = Some ds"
    and faithful: "decl_markers ds = marker_ords (getlines (clean_text expanded))"
  shows "\<exists>pub priv.
     yappc_main e [prog, input] =
       ([WriteFile pubppFile (unlines (spec_lines 0 (getlines src))),
         Shell (preproc_command [] pubppFile pyapp), WriteFile pyapp (clean_text expanded),
         WriteFile (header_path dir filename) (emit_header False (banner e) pub),
         WriteFile (source_path dir filename) (emit_source filename priv),
         Remove pyapp, Remove pubppFile], ExitCode 0) \<and>
     directive_texts pub = map reconstruct (directive_table (getlines src)) \<and>
     decl_texts pub = plain_texts (\<lambda>v. v = Public) ds \<and>
     decl_texts priv = plain_texts (\<lambda>v. v \<noteq> Public) ds \<and> directive_texts priv = []"
proof -
  have od: "dir = effective_outdir (outputDir opts_init) dir"
    by (simp add: no_options_tail(3))
  have cpp': "run_cpp e (preproc_command (preprocArgs split_init) pubppFile pyapp)
      (unlines (spec_lines 0 (getlines src))) = Some expanded"
    using cpp by (simp add: split_init_def)
  have cc: "compile_stage e opts_init (compileArgs split_init) dir filename = ([], Inr ())"
    by (simp add: split_init_def no_options_tail(1))
  obtain pub priv where
    r: "run_input e split_init opts_init input =
      ([WriteFile pubppFile (unlines (spec_lines 0 (getlines src))),
        Shell (preproc_command (preprocArgs split_init) pubppFile pyapp),
        WriteFile pyapp (clean_text expanded),
        WriteFile (header_path dir filename) (emit_header False (banner e) pub),
        WriteFile (source_path dir filename) (emit_source filename priv)]
       @ [] @ cleanup_effects opts_init dir filename pyapp pubppFile, Inr ())"
    and d: "directive_texts pub = map reconstruct (directive_table (getlines src)) \<and>
      decl_texts pub = plain_texts (\<lambda>v. v = Public) ds \<and>
      decl_texts priv = plain_texts (\<lambda>v. v \<noteq> Public) ds \<and> directive_texts priv = []"
    using run_input_faithful [OF rd nostray len bn od pp py wr cpp' keep prs faithful cc] by blast
  have "yappc_main e [prog, input] =
       ([WriteFile pubppFile (unlines (spec_lines 0 (getlines src))),
         Shell (preproc_command [] pubppFile pyapp), WriteFile pyapp (clean_text expanded),
         WriteFile (header_path dir filename) (emit_header False (banner e) pub),
         WriteFile (source_path dir filename) (emit_source filename priv),
         Remove pyapp, Remove pubppFile], ExitCode 0)"
    using r by (simp add: main_no_options finish_def no_options_tail(2) split_init_def)
  with d show ?thesis by blast
qed

theorem main_end_to_end_witness:
  "\<exists>pub priv.
     yappc_main scenario_env [''yappc'', ''main.yapp''] =
       ([WriteFile ''./main.yapp.pubpp'' (unlines (spec_lines 0 (getlines scenario_src))),
         Shell (preproc_command [] ''./main.yapp.pubpp'' ''./main.yapp.pyapp''),
         WriteFile ''./main.yapp.pyapp'' (clean_text scenario_expanded),
         WriteFile (header_path ''./'' ''main'') (emit_header False (banner scenario_env) pub),
         WriteFile (source_path ''./'' ''main'') (emit_source ''main'' priv),
         Remove ''./main.yapp.pyapp'', Remove ''./main.yapp.pubpp''], ExitCode 0) \<and>
     directive_texts pub = map reconstruct (directive_table (getlines scenario_src)) \<and>
     decl_texts pub = plain_texts (\<lambda>v. v = Public) scenario_decls \<and>
     decl_texts priv = plain_texts (\<lambda>v. v \<noteq> Public) scenario_decls \<and> directive_texts priv = []"
  by (rule main_end_to_end [OF scenario_run])

text \<open>
  C10: \<^verbatim>\<open>main\<close> never exits with status 2. The diagnostics branch of lines
  234--245 runs only when \<^verbatim>\<open>clang_parseTranslationUnit\<close> returned a null unit, and
  \<^verbatim>\<open>clang_getNumDiagnostics\<close> of a null unit is 0, so a parse failure always exits
  with 1, the status of every other failure.
\<close>

theorem main_never_2: "snd (yappc_main e argv) \<noteq> ExitCode 2"
proof (cases "length argv < 2")
  case True
  then show ?thesis by (simp add: yappc_main_def)
next
  case False
  let ?sp = "split_args (drop 2 argv)"
  have "snd (then_run (parse_opts (dir_seen e) (\<lambda>_. mkdirs_ok e) [] opts_init (myArgs ?sp))
      (\<lambda>opt. run_input e ?sp opt (argv ! 1))) \<noteq> Inl (ExitCode 2)"
    by (intro then_run_avoid parse_opts_not2 run_input_not2)
  then have "snd (finish (then_run (parse_opts (dir_seen e) (\<lambda>_. mkdirs_ok e) [] opts_init
      (myArgs ?sp)) (\<lambda>opt. run_input e ?sp opt (argv ! 1)))) \<noteq> ExitCode 2"
    by (rule finish_avoid) simp
  with False show ?thesis by (simp add: yappc_main_def Let_def)
qed

text \<open>
  C20: with \<^verbatim>\<open>-h\<close> as the first option, \<^verbatim>\<open>main\<close> prints the usage text and
  exits with 0 before touching any file, whatever follows.
\<close>

theorem main_help: "yappc_main e (prog # input # ''-h'' # rest) = ([Out usageString], ExitCode 0)"
proof -
  obtain ys where m: "myArgs (split_args (''-h'' # rest)) = ''-h'' # ys"
    using myArgs_foldl_prefix [of "split_step split_init ''-h''" rest]
    by (auto simp: split_args_def split_step_def split_init_def)
  show ?thesis by (simp add: yappc_main_def m finish_def)
qed

text \<open>
  C12: the extension check comes after \<^verbatim>\<open>prePreprocess\<close> has written the
  intermediate file: for an input whose intermediate name fails the check, \<^verbatim>\<open>main\<close>
  writes the \<^verbatim>\<open>.pubpp\<close> file, reports the extension error and exits with 1, leaving
  the file behind.
\<close>

theorem main_extension_after_write:
  assumes rd: "read_file e input = Some src"
    and bn: "base_names input = Some (filename, dir)"
    and pp: "pubpp_name input dir = Some pubppFile"
    and wr: "can_write e pubppFile"
    and py: "pyapp_name pubppFile = None"
  shows "yappc_main e [prog, input] =
     ([WriteFile pubppFile (unlines (spec_lines 0 (getlines src))),
       Err (''Input file must have .yapp extension.'' @ [nl])], ExitCode 1)"
proof -
  have "pre_preprocess e [] input dir =
      ([WriteFile pubppFile (unlines (spec_lines 0 (getlines src)))],
       Inr (directive_table (getlines src), pubppFile, unlines (spec_lines 0 (getlines src))))"
    using rd pp wr by (simp add: pre_preprocess_def pre_preprocess_text_eq)
  then show ?thesis
    using bn py by (simp add: main_no_options run_input_def no_options_tail(3) preprocess_stage_def
        finish_def)
qed

theorem main_extension_after_write_witness:
  "yappc_main scenario_env [''yappc'', ''notes.txt''] =
     ([WriteFile ''./notes.txt.pubpp'' (unlines (spec_lines 0 (getlines scenario_src))),
       Err (''Input file must have .yapp extension.'' @ [nl])], ExitCode 1)"
proof -
  have rd: "read_file scenario_env ''notes.txt'' = Some scenario_src" by (simp add: scenario_env_def)
  have bn: "base_names ''notes.txt'' = Some (''notes'', ''./'')"
    by (simp add: base_names_def str_find_last_of_def str_substr_def)
  have pp: "pubpp_name ''notes.txt'' ''./'' = Some ''./notes.txt.pubpp''"
    by (simp add: pubpp_name_def str_substr_def str_find_last_of_def path_join_def)
  have wr: "can_write scenario_env ''./notes.txt.pubpp''" by (simp add: scenario_env_def)
  have py: "pyapp_name ''./notes.txt.pubpp'' = None"
    by (simp add: pyapp_name_def str_find_def)
  show ?thesis by (rule main_extension_after_write [OF rd bn pp wr py])
qed

text \<open>
  C11: the option \<^verbatim>\<open>-r\<close>, which the usage text describes as removing the
  header from the generated \<^verbatim>\<open>.yapp.cpp\<close> file, deletes the generated
  \<^verbatim>\<open>.yapp.h\<close> file at the end of a successful run, while the \<^verbatim>\<open>.yapp.cpp\<close>
  file that is kept still starts with the include of that header.
\<close>

theorem main_remove_header:
  assumes rd: "read_file e input = Some src"
    and nostray: "list_all (\<lambda>l. directive_text l = None \<longrightarrow> parse_marker l = None) (getlines src)"
    and len: "length (getlines src) < 2 ^ 64"
    and bn: "base_names input = Some (filename, dir)"
    and pp: "pubpp_name input dir = Some pubppFile"
    and py: "pyapp_name pubppFile = Some pyapp"
    and wr: "\<forall>p. can_write e p"
    and cpp: "run_cpp e (preproc_command [] pubppFile pyapp) (unlines (spec_lines 0 (getlines src)))
                = Some expanded"
    and keep: "marker_ords (getlines expanded) = marker_ords (getlines (unlines (spec_lines 0 (getlines src))))"
    and prs: "parse_tu e (clean_text expanded) = Some ds"
    and faithful: "decl_markers ds = marker_ords (getlines (clean_text expanded))"
  shows "snd (yappc_main e [prog, input, ''-r'']) = ExitCode 0 \<and>
     apply_effects fs (fst (yappc_main e [prog, input, ''-r''])) (header_path dir filename) = None \<and>
     (\<exists>rest. apply_effects fs (fst (yappc_main e [prog, input, ''-r''])) (source_path dir filename) =
        Some (header_include filename @ rest))"
proof -
  let ?opt = "opts_init\<lparr>removeHeader := True\<rparr>" and ?sp = "split_init\<lparr>myArgs := [''-r'']\<rparr>"
  have od: "dir = effective_outdir (outputDir ?opt) dir"
    by (simp add: opts_init_def effective_outdir_def)
  have cpp': "run_cpp e (preproc_command (preprocArgs ?sp) pubppFile pyapp)
      (unlines (spec_lines 0 (getlines src))) = Some expanded"
    using cpp by (simp add: split_init_def)
  have cc: "compile_stage e ?opt (compileArgs ?sp) dir filename = ([], Inr ())"
    by (simp add: compile_stage_def opts_init_def)
  have cl: "cleanup_effects ?opt dir filename pyapp pubppFile =
      [Remove pyapp, Remove pubppFile, Remove (header_path dir filename)]"
    by (simp add: cleanup_effects_def opts_init_def header_path_def)
  have m: "yappc_main e [prog, input, ''-r''] = finish (run_input e ?sp ?opt input)"
    using main_one_option [of "''-r''" e prog input] by (simp add: opts_init_def)
  obtain pub priv where run: "yappc_main e [prog, input, ''-r''] =
      ([WriteFile pubppFile (unlines (spec_lines 0 (getlines src))),
        Shell (preproc_command [] pubppFile pyapp), WriteFile pyapp (clean_text expanded),
        WriteFile (header_path dir filename) (emit_header False (banner e) pub),
        WriteFile (source_path dir filename) (emit_source filename priv),
        Remove pyapp, Remove pubppFile, Remove (header_path dir filename)], ExitCode 0)"
  proof -
    obtain pub priv where
      r: "run_input e ?sp ?opt input =
        ([WriteFile pubppFile (unlines (spec_lines 0 (getlines src))),
          Shell (preproc_command (preprocArgs ?sp) pubppFile pyapp),
          WriteFile pyapp (clean_text expanded),
          WriteFile (header_path dir filename) (emit_header False (banner e) pub),
          WriteFile (source_path dir filename) (emit_source filename priv)]
         @ [] @ cleanup_effects ?opt dir filename pyapp pubppFile, Inr ())"
      using run_input_faithful [OF rd nostray len bn od pp py wr cpp' keep prs faithful cc] by blast
    then show thesis using that by (simp add: m finish_def cl split_init_def)
  qed
  have d1: "pyapp \<noteq> source_path dir filename" and d2: "pubppFile \<noteq> source_path dir filename"
    and d3: "header_path dir filename \<noteq> source_path dir filename"
    using output_paths_distinct(1) [OF py] output_paths_distinct(2) [OF pp] output_paths_distinct(3)
    by auto
  show ?thesis
    using d1 d2 d3 by (simp add: run apply_effects_def emit_source_def)
qed

theorem main_remove_header_witness:
  "snd (yappc_main scenario_env [''yappc'', ''main.yapp'', ''-r'']) = ExitCode 0 \<and>
   apply_effects Map.empty (fst (yappc_main scenario_env [''yappc'', ''main.yapp'', ''-r'']))
     (header_path ''./'' ''main'') = None \<and>
   (\<exists>rest. apply_effects Map.empty (fst (yappc_main scenario_env [''yappc'', ''main.yapp'', ''-r'']))
     (source_path ''./'' ''main'') = Some (header_include ''main'' @ rest))"
  by (rule main_remove_header [OF scenario_run])

text \<open>
  C4: structural errors (\<S>7). In a run without options whose preprocessor and parser
  succeed, \<^verbatim>\<open>main\<close> stops after cleaning the preprocessor's output with a
  structural error and status 1, writing neither generated file, exactly when the
  markers the parser reports are not the ordinals \<open>0, \<dots>, N-1\<close> in order, \<open>N\<close>
  the number of directives \<^verbatim>\<open>prePreprocess\<close> stored; otherwise it completes with 0.
\<close>

theorem main_structural_error_iff:
  assumes rd: "read_file e input = Some src"
    and bn: "base_names input = Some (filename, dir)"
    and pp: "pubpp_name input dir = Some pubppFile"
    and py: "pyapp_name pubppFile = Some pyapp"
    and wr: "\<forall>p. can_write e p"
    and cpp: "run_cpp e (preproc_command [] pubppFile pyapp) (unlines (spec_lines 0 (getlines src)))
                = Some expanded"
    and prs: "parse_tu e (clean_text expanded) = Some ds"
  shows "yappc_main e [prog, input] =
       ([WriteFile pubppFile (unlines (spec_lines 0 (getlines src))),
         Shell (preproc_command [] pubppFile pyapp), WriteFile pyapp (clean_text expanded),
         Err (''StructuralError'' @ [nl])], ExitCode 1) \<longleftrightarrow>
     decl_markers ds \<noteq> [0..<length (directive_table (getlines src))]"
proof -
  have od: "dir = effective_outdir (outputDir opts_init) dir"
    by (simp add: no_options_tail(3))
  have cpp': "run_cpp e (preproc_command (preprocArgs split_init) pubppFile pyapp)
      (unlines (spec_lines 0 (getlines src))) = Some expanded"
    using cpp by (simp add: split_init_def)
  note run = run_input_prefix [OF rd bn od pp py wr cpp' prs]
  show ?thesis
  proof (cases "partition_decls (directive_table (getlines src)) ds")
    case (Inl err)
    then have "decl_markers ds \<noteq> [0..<length (directive_table (getlines src))]"
      using partition_decls_ok_iff by (metis sum.distinct(1))
    with Inl run show ?thesis
      by (simp add: main_no_options finish_def emit_stage_def split_init_def)
  next
    case (Inr p)
    then have "decl_markers ds = [0..<length (directive_table (getlines src))]"
      using partition_decls_ok_iff by blast
    with Inr run wr show ?thesis
      by (cases p) (simp add: main_no_options finish_def emit_stage_def write_files_def
          no_options_tail split_init_def)
  qed
qed

theorem main_structural_error_iff_witness:
  "yappc_main (scenario_env\<lparr>parse_tu := \<lambda>_. Some (tl scenario_decls)\<rparr>) [''yappc'', ''main.yapp''] =
     ([WriteFile ''./main.yapp.pubpp'' (unlines (spec_lines 0 (getlines scenario_src))),
       Shell (preproc_command [] ''./main.yapp.pubpp'' ''./main.yapp.pyapp''),
       WriteFile ''./main.yapp.pyapp'' (clean_text scenario_expanded),
       Err (''StructuralError'' @ [nl])], ExitCode 1)"
proof -
  let ?e = "scenario_env\<lparr>parse_tu := \<lambda>_. Some (tl scenario_decls)\<rparr>"
  have rd: "read_file ?e ''main.yapp'' = Some scenario_src" by (simp add: scenario_env_def)
  have wr: "\<forall>p. can_write ?e p" by (simp add: scenario_env_def)
  have cpp: "run_cpp ?e (preproc_command [] ''./main.yapp.pubpp'' ''./main.yapp.pyapp'')
     (unlines (spec_lines 0 (getlines scenario_src))) = Some scenario_expanded"
    using scenario_run_cpp by (simp add: scenario_env_def)
  have prs: "parse_tu ?e (clean_text scenario_expanded) = Some (tl scenario_decls)" by simp
  have "decl_markers (tl scenario_decls) \<noteq> [0..<length (directive_table (getlines scenario_src))]"
    by (simp add: scenario_table)
  then show ?thesis
    using main_structural_error_iff [OF rd scenario_base scenario_pubpp scenario_pyapp wr cpp prs,
        of "''yappc''"] by blast
qed

text \<open>
  C29: in debug mode (\<^verbatim>\<open>-g\<close>) a successful run removes nothing: the
  intermediate files stay beside the generated ones.
\<close>

theorem main_debug_keeps_files:
  assumes rd: "read_file e input = Some src"
    and nostray: "list_all (\<lambda>l. directive_text l = None \<longrightarrow> parse_marker l = None) (getlines src)"
    and len: "length (getlines src) < 2 ^ 64"
    and bn: "base_names input = Some (filename, dir)"
    and pp: "pubpp_name input dir = Some pubppFile"
    and py: "pyapp_name pubppFile = Some pyapp"
    and wr: "\<forall>p. can_write e p"
    and cpp: "run_cpp e (preproc_command [] pubppFile pyapp) (unlines (spec_lines 0 (getlines src)))
                = Some expanded"
    and keep: "marker_ords (getlines expanded) = marker_ords (getlines (unlines (spec_lines 0 (getlines src))))"
    and prs: "parse_tu e (clean_text expanded) = Some ds"
    and faithful: "decl_markers ds = marker_ords (getlines (clean_text expanded))"
  shows "snd (yappc_main e [prog, input, ''-g'']) = ExitCode 0 \<and>
     (\<forall>p. Remove p \<notin> set (fst (yappc_main e [prog, input, ''-g''])))"
proof -
  let ?opt = "opts_init\<lparr>debugMode := True\<rparr>" and ?sp = "split_init\<lparr>myArgs := [''-g'']\<rparr>"
  have od: "dir = effective_outdir (outputDir ?opt) dir"
    by (simp add: opts_init_def effective_outdir_def)
  have cpp': "run_cpp e (preproc_command (preprocArgs ?sp) pubppFile pyapp)
      (unlines (spec_lines 0 (getlines src))) = Some expanded"
    using cpp by (simp add: split_init_def)
  have cc: "compile_stage e ?opt (compileArgs ?sp) dir filename = ([], Inr ())"
    by (simp add: compile_stage_def opts_init_def)
  have cl: "cleanup_effects ?opt dir filename pyapp pubppFile = []"
    by (simp add: cleanup_effects_def opts_init_def)
  have m: "yappc_main e [prog, input, ''-g''] = finish (run_input e ?sp ?opt input)"
    using main_one_option [of "''-g''" e prog input] by (simp add: opts_init_def)
  obtain pub priv where "run_input e ?sp ?opt input =
      ([WriteFile pubppFile (unlines (spec_lines 0 (getlines src))),
        Shell (preproc_command (preprocArgs ?sp) pubppFile pyapp), WriteFile pyapp (clean_text expanded),
        WriteFile (header_path dir filename) (emit_header False (banner e) pub),
        WriteFile (source_path dir filename) (emit_source filename priv)]
       @ [] @ cleanup_effects ?opt dir filename pyapp pubppFile, Inr ())"
    using run_input_faithful [OF rd nostray len bn od pp py wr cpp' keep prs faithful cc] by blast
  then show ?thesis by (simp add: m finish_def cl)
qed

theorem main_debug_keeps_files_witness:
  "snd (yappc_main scenario_env [''yappc'', ''main.yapp'', ''-g'']) = ExitCode 0 \<and>
   (\<forall>p. Remove p \<notin> set (fst (yappc_main scenario_env [''yappc'', ''main.yapp'', ''-g''])))"
  by (rule main_debug_keeps_files [OF scenario_run])

text \<open>
  C30: when the compiler fails (\<^verbatim>\<open>-c\<close>), \<^verbatim>\<open>main\<close> exits with 1 after the
  header and the implementation have been written in full, and removes nothing: the
  generated files and the intermediates are left behind.
\<close>

theorem main_compile_failure:
  assumes rd: "read_file e input = Some src"
    and nostray: "list_all (\<lambda>l. directive_text l = None \<longrightarrow> parse_marker l = None) (getlines src)"
    and len: "length (getlines src) < 2 ^ 64"
    and bn: "base_names input = Some (filename, dir)"
    and pp: "pubpp_name input dir = Some pubppFile"
    and py: "pyapp_name pubppFile = Some pyapp"
    and wr: "\<forall>p. can_write e p"
    and cpp: "run_cpp e (preproc_command [] pubppFile pyapp) (unlines (spec_lines 0 (getlines src)))
                = Some expanded"
    and keep: "marker_ords (getlines expanded) = marker_ords (getlines (unlines (spec_lines 0 (getlines src))))"
    and prs: "parse_tu e (clean_text expanded) = Some ds"
    and faithful: "decl_markers ds = marker_ords (getlines (clean_text expanded))"
    and cxx: "\<not> run_cxx e (compile_command [] dir filename)"
  shows "\<exists>pub priv. yappc_main e [prog, input, ''-c''] =
     ([WriteFile pubppFile (unlines (spec_lines 0 (getlines src))),
       Shell (preproc_command [] pubppFile pyapp), WriteFile pyapp (clean_text expanded),
       WriteFile (header_path dir filename) (emit_header False (banner e) pub),
       WriteFile (source_path dir filename) (emit_source filename priv),
       Shell (compile_command [] dir filename), Err (''Compilation failed.'' @ [nl])], ExitCode 1)"
proof -
  let ?opt = "opts_init\<lparr>compileGenerated := True\<rparr>" and ?sp = "split_init\<lparr>myArgs := [''-c'']\<rparr>"
  have od: "dir = effective_outdir (outputDir ?opt) dir"
    by (simp add: opts_init_def effective_outdir_def)
  have cpp': "run_cpp e (preproc_command (preprocArgs ?sp) pubppFile pyapp)
      (unlines (spec_lines 0 (getlines src))) = Some expanded"
    using cpp by (simp add: split_init_def)
  have cc: "compile_stage e ?opt (compileArgs split_init) dir filename =
      ([Shell (compile_command [] dir filename), Err (''Compilation failed.'' @ [nl])], Inl (ExitCode 1))"
    using cxx by (simp add: compile_stage_def opts_init_def split_init_def)
  have m: "yappc_main e [prog, input, ''-c''] = finish (run_input e ?sp ?opt input)"
    using main_one_option [of "''-c''" e prog input] by (simp add: opts_init_def)
  obtain pub priv where part: "partition_decls (directive_table (getlines src)) ds = Inr (pub, priv)"
    using nostray len keep faithful by (rule partition_faithful)
  have r: "run_input e ?sp ?opt input =
     ([WriteFile pubppFile (unlines (spec_lines 0 (getlines src))),
       Shell (preproc_command (preprocArgs ?sp) pubppFile pyapp), WriteFile pyapp (clean_text expanded),
       WriteFile (header_path dir filename) (emit_header False (banner e) pub),
       WriteFile (source_path dir filename) (emit_source filename priv),
       Shell (compile_command [] dir filename), Err (''Compilation failed.'' @ [nl])], Inl (ExitCode 1))"
    using run_input_written [OF rd bn od pp py wr cpp' prs part] by (simp add: cc)
  show ?thesis
    using r by (auto simp: m finish_def split_init_def)
qed

theorem main_compile_failure_witness:
  "\<exists>pub priv.
     yappc_main (scenario_env\<lparr>run_cxx := \<lambda>_. False\<rparr>) [''yappc'', ''main.yapp'', ''-c''] =
     ([WriteFile ''./main.yapp.pubpp'' (unlines (spec_lines 0 (getlines scenario_src))),
       Shell (preproc_command [] ''./main.yapp.pubpp'' ''./main.yapp.pyapp''),
       WriteFile ''./main.yapp.pyapp'' (clean_text scenario_expanded),
       WriteFile (header_path ''./'' ''main'')
         (emit_header False (banner (scenario_env\<lparr>run_cxx := \<lambda>_. False\<rparr>)) pub),
       WriteFile (source_path ''./'' ''main'') (emit_source ''main'' priv),
       Shell (compile_command [] ''./'' ''main''), Err (''Compilation failed.'' @ [nl])], ExitCode 1)"
proof -
  let ?e = "scenario_env\<lparr>run_cxx := \<lambda>_. False\<rparr>"
  have rd: "read_file ?e ''main.yapp'' = Some scenario_src" by (simp add: scenario_env_def)
  have wr: "\<forall>p. can_write ?e p" by (simp add: scenario_env_def)
  have cpp: "run_cpp ?e (preproc_command [] ''./main.yapp.pubpp'' ''./main.yapp.pyapp'')
     (unlines (spec_lines 0 (getlines scenario_src))) = Some scenario_expanded"
    using scenario_run_cpp by (simp add: scenario_env_def)
  have prs: "parse_tu ?e (clean_text scenario_expanded) = Some scenario_decls"
    using scenario_parse_tu by (simp add: scenario_env_def)
  have cxx: "\<not> run_cxx ?e (compile_command [] ''./'' ''main'')" by simp
  show ?thesis
    by (rule main_compile_failure [OF rd scenario_nostray scenario_len scenario_base scenario_pubpp
        scenario_pyapp wr cpp scenario_keep prs scenario_faithful cxx])
qed

text \<open>
  C31: an input that cannot be opened stops the run in \<^verbatim>\<open>prePreprocess\<close> with its
  message and status 1, before any file is written.
\<close>

theorem main_unreadable_input:
  assumes "read_file e input = None" and "base_names input = Some (filename, dir)"
  shows "yappc_main e [prog, input] =
     ([Err (''Failed to open input file for pre-preprocessing: '' @ input @ [nl])], ExitCode 1)"
  using assms by (simp add: main_no_options run_input_def pre_preprocess_def finish_def)

theorem main_unreadable_input_witness:
  "yappc_main scenario_env [''yappc'', ''lost.yapp''] =
     ([Err (''Failed to open input file for pre-preprocessing: '' @ ''lost.yapp'' @ [nl])], ExitCode 1)"
proof -
  have rd: "read_file scenario_env ''lost.yapp'' = None" by (simp add: scenario_env_def)
  have bn: "base_names ''lost.yapp'' = Some (''lost'', ''./'')"
    by (simp add: base_names_def str_find_last_of_def str_substr_def)
  show ?thesis by (rule main_unreadable_input [OF rd bn])
qed

end
